theory Spec2Isabelle
  imports Complex_Main "HOL-Library.Word"
begin

section \<open>JavaScript values\<close>

text \<open>
  A \<open>Buffer\<close> or \<open>Uint8Array\<close> is a list of bytes. A thrown value is an \<open>error\<close>:
  \<open>Error m\<close> and \<open>TypeError m\<close> are the built-in classes with their message,
  \<open>Rejection s\<close> is any other value a library throws or rejects with, named by its
  string form. A function that can throw returns \<open>error + 'a\<close>, \<open>Inl\<close> the thrown value.

  A JavaScript number is an exact rational or \<open>NaN\<close>: rounding to a double and the
  infinities are left out of the model.
\<close>

type_synonym Buffer = "8 word list"

datatype error = Error string | TypeError string | Rejection string

datatype jsnum = Num rat | NaN

fun error_to_string :: "error \<Rightarrow> string" where
  "error_to_string (Error m) = ''Error: '' @ m"
| "error_to_string (TypeError m) = ''TypeError: '' @ m"
| "error_to_string (Rejection s) = s"

text \<open>Truthiness of a string that may be \<open>undefined\<close>: defined and not empty.\<close>

fun truthy_str :: "string option \<Rightarrow> bool" where
  "truthy_str None = False"
| "truthy_str (Some s) = (s \<noteq> [])"

text \<open>Truthiness of a number that may be \<open>undefined\<close>: defined and not zero.\<close>

fun truthy_num :: "rat option \<Rightarrow> bool" where
  "truthy_num None = False"
| "truthy_num (Some n) = (n \<noteq> 0)"

text \<open>
  A natural number as a string (\<open>"..." + i\<close>, a template literal of an index); a digit
  is the character at its position in \<open>0123456789\<close>.
\<close>

definition digit_char :: "nat \<Rightarrow> char" where
  "digit_char d = ''0123456789'' ! (d mod 10)"

fun string_of_nat :: "nat \<Rightarrow> string" where
  "string_of_nat n =
     (if n < 10 then [digit_char n]
      else string_of_nat (n div 10) @ [digit_char (n mod 10)])"

declare string_of_nat.simps [simp del]

section \<open>Numbers and strings of the connectors\<close>

text \<open>Arithmetic on numbers: \<open>NaN\<close> propagates; a division by zero is \<open>NaN\<close> here.\<close>

fun js_sub :: "jsnum \<Rightarrow> jsnum \<Rightarrow> jsnum" where
  "js_sub (Num a) (Num b) = Num (a - b)"
| "js_sub _ _ = NaN"

fun js_mul :: "jsnum \<Rightarrow> jsnum \<Rightarrow> jsnum" where
  "js_mul (Num a) (Num b) = Num (a * b)"
| "js_mul _ _ = NaN"

fun js_div :: "jsnum \<Rightarrow> jsnum \<Rightarrow> jsnum" where
  "js_div (Num a) (Num b) = (if b = 0 then NaN else Num (a / b))"
| "js_div _ _ = NaN"

text \<open>A number field that may be \<open>undefined\<close>, read in arithmetic.\<close>

fun opt_num :: "rat option \<Rightarrow> jsnum" where
  "opt_num None = NaN"
| "opt_num (Some n) = Num n"

definition is_digit :: "char \<Rightarrow> bool" where
  "is_digit c = (c \<in> set ''0123456789'')"

definition digit_value :: "char \<Rightarrow> nat" where
  "digit_value c = length (takeWhile (\<lambda>d. d \<noteq> c) ''0123456789'')"

text \<open>The value of a string of decimal digits, most significant first.\<close>

definition decimal :: "string \<Rightarrow> nat" where
  "decimal s = foldl (\<lambda>a c. 10 * a + digit_value c) 0 s"

text \<open>
  A string used as a number (\<open>str / 1000\<close>, \<open>str - str\<close>, \<open>str * 1000\<close>): a string of
  decimal digits is its value and the empty string is 0; what any other string
  converts to is the parameter \<open>other\<close>.
\<close>

definition ToNumber :: "(string \<Rightarrow> jsnum) \<Rightarrow> string \<Rightarrow> jsnum" where
  "ToNumber other s = (if list_all is_digit s then Num (of_nat (decimal s)) else other s)"

text \<open>
  \<open>parseInt(s, 10)\<close>: leading white space is skipped, a sign is read, then the longest
  run of digits; \<open>NaN\<close> when there is no digit.
\<close>

definition is_space :: "char \<Rightarrow> bool" where
  "is_space c = (c \<in> set [CHR '' '', CHR 0x09, CHR 0x0A, CHR 0x0B, CHR 0x0C, CHR 0x0D])"

definition parseInt10 :: "string \<Rightarrow> jsnum" where
  "parseInt10 s =
     (let t = dropWhile is_space s;
          neg = (t \<noteq> [] \<and> hd t = CHR ''-'');
          u = (if t \<noteq> [] \<and> (hd t = CHR ''-'' \<or> hd t = CHR ''+'') then tl t else t);
          ds = takeWhile is_digit u
      in if ds = [] then NaN
         else Num (if neg then - of_nat (decimal ds) else of_nat (decimal ds)))"

text \<open>
  \<open>s.replace(pat, rep)\<close> with a string pattern: the first occurrence is replaced (the
  replacement is taken literally).
\<close>

fun replace_first :: "string \<Rightarrow> string \<Rightarrow> string \<Rightarrow> string" where
  "replace_first pat rep [] = (if pat = [] then rep else [])"
| "replace_first pat rep (c # cs) =
     (if take (length pat) (c # cs) = pat then rep @ drop (length pat) (c # cs)
      else c # replace_first pat rep cs)"

text \<open>\<open>UTF8.parse(s).toString(Hex)\<close>: two lower-case hex digits for each byte.\<close>

definition hex_digit :: "nat \<Rightarrow> char" where
  "hex_digit d =
     (if d < 10 then digit_char d else if d = 10 then CHR ''a'' else if d = 11 then CHR ''b''
      else if d = 12 then CHR ''c'' else if d = 13 then CHR ''d'' else if d = 14 then CHR ''e''
      else CHR ''f'')"

definition hex_encode :: "string \<Rightarrow> string" where
  "hex_encode s = concat (map (\<lambda>c. [hex_digit (of_char c div 16), hex_digit (of_char c mod 16)]) s)"

text \<open>The first element that satisfies a predicate (\<open>Array.prototype.find\<close>).\<close>

fun find_first :: "('a \<Rightarrow> bool) \<Rightarrow> 'a list \<Rightarrow> 'a option" where
  "find_first P [] = None"
| "find_first P (x # xs) = (if P x then Some x else find_first P xs)"

text \<open>\<open>xs.map((x, index) => f x index)\<close>, from index \<open>i\<close> on.\<close>

fun map_index :: "('a \<Rightarrow> nat \<Rightarrow> 'b) \<Rightarrow> nat \<Rightarrow> 'a list \<Rightarrow> 'b list" where
  "map_index f i [] = []"
| "map_index f i (x # xs) = f x i # map_index f (Suc i) xs"

section \<open>The connector contract\<close>

text \<open>
  The normalized responses. A response \<open>{data: T}\<close> is modelled by its \<open>T\<close>; an
  argument object by its fields. An amount argument is a number or a string.
\<close>

datatype jsval = JString string | JNumber jsnum | JObject "(string \<times> string) list"

datatype amount_arg = AmountNumber rat | AmountString string

record Route =
  total_amt :: jsnum
  total_fees :: jsnum

record SendPaymentResponse =
  preimage :: string
  paymentHash :: string
  route :: Route

record CheckPaymentResponse =
  paid :: bool
  preimage :: "string option"

record SignMessageResponse =
  message :: string
  signature :: string

record MakeInvoiceResponse =
  paymentRequest :: string
  rHash :: string

record GetInfoResponse =
  "alias" :: string
  pubkey :: string
  color :: string

record ConnectorInvoice =
  id :: string
  memo :: string
  settled :: bool
  preimage :: string
  settleDate :: rat
  "type" :: string
  totalAmount :: string

record ConnectorTransaction =
  id :: string
  memo :: string
  preimage :: string
  payment_hash :: "string option"
  settled :: bool
  settleDate :: jsnum
  totalAmount :: rat
  "type" :: string

section \<open>The Commando connector\<close>

record Config =
  host :: string
  port :: nat
  rune :: string
  pubkey :: string
  wsProxy :: string
  privateKey :: string

text \<open>The argument of \<open>ln.commando\<close>: the request that is sent.\<close>

record CommandoRequest =
  "method" :: string
  params :: "(string \<times> jsval) list"
  rune :: string

record CommandoGetInfoResponse =
  "alias" :: string
  id :: string
  color :: string

record CommandoMakeInvoiceResponse =
  bolt11 :: string
  payment_hash :: string
  payment_secret :: string

record CommandoChannel =
  peer_id :: string
  channel_sat :: rat
  amount_msat :: rat
  funding_txid :: string
  funding_output :: rat
  connected :: bool
  state :: string

record CommandoPayInvoiceResponse =
  payment_preimage :: string
  payment_hash :: string
  amount_msat :: string
  amount_sent_msat :: string

record CommandoInvoice =
  label :: string
  status :: string
  description :: string
  amount_received_msat :: rat
  bolt11 :: string
  payment_preimage :: string
  paid_at :: rat
  payment_hash :: string

text \<open>
  Every operation takes the transport \<open>ln.commando\<close> as a function from the request to
  the node's answer, typed as the operation casts it, or to the value the call rejects
  with. It returns the requests it sent, in order, and its result.

  \<open>connectPeer\<close> resolves with \<open>{data: true}\<close> or, when the call rejects, with an
  \<open>Error\<close> object made of the rejection: the inner sum of its result.
\<close>

definition Commando_connectPeer ::
  "(CommandoRequest \<Rightarrow> error + 'r) \<Rightarrow> Config \<Rightarrow> string \<Rightarrow> string
     \<Rightarrow> CommandoRequest list \<times> (error + (error + bool))" where
  "Commando_connectPeer commando config args_pubkey args_host =
     (let req = \<lparr>method = ''connect'',
                 params = [(''id'', JString args_pubkey), (''host'', JString args_host)],
                 rune = Config.rune config\<rparr>
      in ([req],
          case commando req of
            Inr resp \<Rightarrow> Inr (Inr True)
          | Inl err \<Rightarrow> Inr (Inl (Error (error_to_string err)))))"

definition Commando_getInvoices ::
  "(CommandoRequest \<Rightarrow> error + CommandoInvoice list) \<Rightarrow> (rat \<Rightarrow> string) \<Rightarrow> Config
     \<Rightarrow> CommandoRequest list \<times> (error + ConnectorInvoice list)" where
  "Commando_getInvoices commando Number_toString config =
     (let req = \<lparr>method = ''listinvoices'', params = [], rune = Config.rune config\<rparr>
      in ([req],
          case commando req of
            Inl err \<Rightarrow> Inl err
          | Inr parsed_invoices \<Rightarrow>
              Inr (map (\<lambda>invoice.
                     \<lparr>ConnectorInvoice.id = label invoice,
                      memo = description invoice,
                      settled = (status invoice = ''paid''),
                      preimage = CommandoInvoice.payment_preimage invoice,
                      settleDate = paid_at invoice,
                      type = ''received'',
                      totalAmount = Number_toString (amount_received_msat invoice / 1000)\<rparr>)
                   parsed_invoices)))"

definition Commando_getInfo ::
  "(CommandoRequest \<Rightarrow> error + CommandoGetInfoResponse) \<Rightarrow> Config
     \<Rightarrow> CommandoRequest list \<times> (error + GetInfoResponse)" where
  "Commando_getInfo commando config =
     (let req = \<lparr>method = ''getinfo'', params = [], rune = Config.rune config\<rparr>
      in ([req],
          case commando req of
            Inl err \<Rightarrow> Inl err
          | Inr response \<Rightarrow>
              Inr \<lparr>GetInfoResponse.alias = CommandoGetInfoResponse.alias response,
                   pubkey = CommandoGetInfoResponse.id response,
                   color = CommandoGetInfoResponse.color response\<rparr>))"

definition Commando_getBalance ::
  "(CommandoRequest \<Rightarrow> error + CommandoChannel list) \<Rightarrow> Config
     \<Rightarrow> CommandoRequest list \<times> (error + rat)" where
  "Commando_getBalance commando config =
     (let req = \<lparr>method = ''listfunds'', params = [], rune = Config.rune config\<rparr>
      in ([req],
          case commando req of
            Inl err \<Rightarrow> Inl err
          | Inr channels \<Rightarrow> Inr (foldl (\<lambda>lnBalance c. lnBalance + channel_sat c) 0 channels)))"

text \<open>The \<open>then\<close> callback shared, word for word, by \<open>sendPayment\<close> and \<open>keysend\<close>.\<close>

definition parse_pay_response ::
  "(string \<Rightarrow> jsnum) \<Rightarrow> CommandoPayInvoiceResponse \<Rightarrow> SendPaymentResponse" where
  "parse_pay_response other parsed =
     (let parsedTotalAmtStr = replace_first ''msat'' [] (CommandoPayInvoiceResponse.amount_msat parsed);
          parsedSentAmtPaidStr = replace_first ''msat'' [] (amount_sent_msat parsed);
          parsedTotalAmt = js_div (ToNumber other parsedTotalAmtStr) (Num 1000);
          parsedTotalFee =
            js_div (js_sub (ToNumber other parsedSentAmtPaidStr) (ToNumber other parsedTotalAmtStr))
              (Num 1000)
      in \<lparr>SendPaymentResponse.preimage = CommandoPayInvoiceResponse.payment_preimage parsed,
          paymentHash = CommandoPayInvoiceResponse.payment_hash parsed,
          route = \<lparr>total_amt = parsedTotalAmt, total_fees = parsedTotalFee\<rparr>\<rparr>)"

definition Commando_sendPayment ::
  "(CommandoRequest \<Rightarrow> error + CommandoPayInvoiceResponse) \<Rightarrow> (string \<Rightarrow> jsnum) \<Rightarrow> Config
     \<Rightarrow> string \<Rightarrow> CommandoRequest list \<times> (error + SendPaymentResponse)" where
  "Commando_sendPayment commando other config args_paymentRequest =
     (let req = \<lparr>method = ''pay'', params = [(''bolt11'', JString args_paymentRequest)],
                 rune = Config.rune config\<rparr>
      in ([req],
          case commando req of
            Inl err \<Rightarrow> Inl err
          | Inr parsed \<Rightarrow> Inr (parse_pay_response other parsed)))"

definition Commando_keysend ::
  "(CommandoRequest \<Rightarrow> error + CommandoPayInvoiceResponse) \<Rightarrow> (string \<Rightarrow> jsnum) \<Rightarrow> Config
     \<Rightarrow> string \<Rightarrow> rat \<Rightarrow> (string \<times> string) list
     \<Rightarrow> CommandoRequest list \<times> (error + SendPaymentResponse)" where
  "Commando_keysend commando other config args_pubkey args_amount args_customRecords =
     (let boostagram = map (\<lambda>(key, v). (key, hex_encode v)) args_customRecords;
          req = \<lparr>method = ''keysend'',
                 params = [(''destination'', JString args_pubkey),
                           (''msatoshi'', JNumber (Num (args_amount * 1000))),
                           (''extratlvs'', JObject boostagram)],
                 rune = Config.rune config\<rparr>
      in ([req],
          case commando req of
            Inl err \<Rightarrow> Inl err
          | Inr parsed \<Rightarrow> Inr (parse_pay_response other parsed)))"

definition Commando_checkPayment ::
  "(CommandoRequest \<Rightarrow> error + CommandoInvoice list) \<Rightarrow> Config \<Rightarrow> string
     \<Rightarrow> CommandoRequest list \<times> (error + CheckPaymentResponse)" where
  "Commando_checkPayment commando config args_paymentHash =
     (let req = \<lparr>method = ''listinvoices'',
                 params = [(''payment_hash'', JString args_paymentHash)],
                 rune = Config.rune config\<rparr>
      in ([req],
          case commando req of
            Inl err \<Rightarrow> Inl err
          | Inr parsed_invoices \<Rightarrow>
              if length parsed_invoices \<noteq> 1
              then Inr \<lparr>paid = False, preimage = None\<rparr>
              else Inr \<lparr>paid = (status (parsed_invoices ! 0) = ''paid''), preimage = None\<rparr>))"

definition Commando_signMessage ::
  "(CommandoRequest \<Rightarrow> error + string) \<Rightarrow> Config \<Rightarrow> string
     \<Rightarrow> CommandoRequest list \<times> (error + SignMessageResponse)" where
  "Commando_signMessage commando config args_message =
     (let req = \<lparr>method = ''signmessage'', params = [(''message'', JString args_message)],
                 rune = Config.rune config\<rparr>
      in ([req],
          case commando req of
            Inl err \<Rightarrow> Inl err
          | Inr parsed_zbase \<Rightarrow> Inr \<lparr>message = args_message, signature = parsed_zbase\<rparr>))"

text \<open>\<open>makeInvoice\<close>: the label is the \<open>uuidv4()\<close> drawn for the call.\<close>

definition Commando_makeInvoice ::
  "(CommandoRequest \<Rightarrow> error + CommandoMakeInvoiceResponse) \<Rightarrow> (string \<Rightarrow> jsnum) \<Rightarrow> Config
     \<Rightarrow> string \<Rightarrow> amount_arg \<Rightarrow> string
     \<Rightarrow> CommandoRequest list \<times> (error + MakeInvoiceResponse)" where
  "Commando_makeInvoice commando other config uuid args_amount args_memo =
     (let req = \<lparr>method = ''invoice'',
                 params = [(''amount_msat'',
                              JNumber (js_mul (case args_amount of
                                                 AmountNumber n \<Rightarrow> Num n
                                               | AmountString s \<Rightarrow> ToNumber other s) (Num 1000))),
                           (''label'', JString uuid),
                           (''description'', JString args_memo)],
                 rune = Config.rune config\<rparr>
      in ([req],
          case commando req of
            Inl err \<Rightarrow> Inl err
          | Inr response \<Rightarrow>
              Inr \<lparr>paymentRequest = CommandoMakeInvoiceResponse.bolt11 response,
                   rHash = CommandoMakeInvoiceResponse.payment_hash response\<rparr>))"

section \<open>The NWC connector\<close>

text \<open>
  A transaction of the remote wallet service, as \<open>makeInvoice\<close>, \<open>lookupInvoice\<close> and
  \<open>listTransactions\<close> return it; \<open>payment_hash\<close> and \<open>settled_at\<close> may be missing.
\<close>

record Nip47Transaction =
  "type" :: string
  invoice :: string
  description :: string
  preimage :: string
  payment_hash :: "string option"
  amount :: rat
  settled_at :: "rat option"

text \<open>
  A decoded payment request: its tags (\<open>data\<close> is read for the payment-hash tag only,
  as the string the code casts it to) and its two amount fields.
\<close>

record Tag =
  tagName :: string
  data :: string

record DecodedInvoice =
  tags :: "Tag list"
  millisatoshis :: "string option"
  satoshis :: "rat option"

record TlvRecord =
  "type" :: jsnum
  "value" :: string

text \<open>
  The calls of the connector, in the order they are made: the local decoding of a payment
  request and the requests to the remote service.
\<close>

datatype nwc_call =
  Decode string
  | ListTransactions bool nat
  | MakeInvoice rat string
  | PayInvoice string
  | PayKeysend string rat "TlvRecord list"
  | LookupInvoice string

text \<open>
  The client \<open>this.nwc\<close> (each method gives the service's answer or the value it rejects
  with) and the libraries: \<open>lightningPayReq.decode\<close>, \<open>SHA256(s).toString(Hex)\<close> and
  \<open>parseFloat\<close>.
\<close>

record NWC =
  listTransactions :: "bool \<Rightarrow> nat \<Rightarrow> error + Nip47Transaction list"
  makeInvoice :: "rat \<Rightarrow> string \<Rightarrow> error + Nip47Transaction"
  payInvoice :: "string \<Rightarrow> error + string"
  payKeysend :: "string \<Rightarrow> rat \<Rightarrow> TlvRecord list \<Rightarrow> error + string"
  lookupInvoice :: "string \<Rightarrow> error + Nip47Transaction"
  decode :: "string \<Rightarrow> error + DecodedInvoice"
  SHA256_hex :: "string \<Rightarrow> string"
  parseFloat :: "string \<Rightarrow> jsnum"

definition NWC_getTransactions :: "NWC \<Rightarrow> nwc_call list \<times> (error + ConnectorTransaction list)" where
  "NWC_getTransactions nwc =
     ([ListTransactions False 50],
      case listTransactions nwc False 50 of
        Inl err \<Rightarrow> Inl err
      | Inr transactions \<Rightarrow>
          Inr (map_index (\<lambda>transaction index.
                 \<lparr>ConnectorTransaction.id = string_of_nat index,
                  memo = Nip47Transaction.description transaction,
                  preimage = Nip47Transaction.preimage transaction,
                  payment_hash = Nip47Transaction.payment_hash transaction,
                  settled = True,
                  settleDate = js_mul (opt_num (settled_at transaction)) (Num 1000),
                  totalAmount = amount transaction,
                  type = (if Nip47Transaction.type transaction = ''incoming''
                          then ''received'' else ''sent'')\<rparr>)
               0 transactions))"

text \<open>The payment-hash tag of a decoded request: \<open>tags.find(...)?.data\<close>.\<close>

definition payment_hash_tag :: "DecodedInvoice \<Rightarrow> string option" where
  "payment_hash_tag decodedInvoice =
     map_option data (find_first (\<lambda>tag. tagName tag = ''payment_hash'') (tags decodedInvoice))"

text \<open>
  The amount \<open>makeInvoice\<close> sends: the number given, or \<open>parseFloat(amount) || 0\<close>
  for a string.
\<close>

definition invoice_amount :: "NWC \<Rightarrow> amount_arg \<Rightarrow> rat" where
  "invoice_amount nwc args_amount =
     (case args_amount of
        AmountNumber n \<Rightarrow> n
      | AmountString s \<Rightarrow> (case parseFloat nwc s of Num r \<Rightarrow> r | NaN \<Rightarrow> 0))"

definition NWC_makeInvoice ::
  "NWC \<Rightarrow> amount_arg \<Rightarrow> string \<Rightarrow> nwc_call list \<times> (error + MakeInvoiceResponse)" where
  "NWC_makeInvoice nwc args_amount args_memo =
     (let amt = invoice_amount nwc args_amount
      in case makeInvoice nwc amt args_memo of
           Inl err \<Rightarrow> ([MakeInvoice amt args_memo], Inl err)
         | Inr made \<Rightarrow>
             if truthy_str (Nip47Transaction.payment_hash made)
             then ([MakeInvoice amt args_memo],
                   Inr \<lparr>paymentRequest = invoice made,
                        rHash = the (Nip47Transaction.payment_hash made)\<rparr>)
             else
               (case decode nwc (invoice made) of
                  Inl err \<Rightarrow> ([MakeInvoice amt args_memo, Decode (invoice made)], Inl err)
                | Inr decodedInvoice \<Rightarrow>
                    ([MakeInvoice amt args_memo, Decode (invoice made)],
                     if \<not> truthy_str (payment_hash_tag decodedInvoice)
                     then Inl (Error ''Could not find payment hash in invoice'')
                     else Inr \<lparr>paymentRequest = invoice made,
                              rHash = the (payment_hash_tag decodedInvoice)\<rparr>)))"

definition NWC_sendPayment ::
  "NWC \<Rightarrow> string \<Rightarrow> nwc_call list \<times> (error + SendPaymentResponse)" where
  "NWC_sendPayment nwc args_paymentRequest =
     (case decode nwc args_paymentRequest of
        Inl err \<Rightarrow> ([Decode args_paymentRequest], Inl err)
      | Inr decoded \<Rightarrow>
          if \<not> truthy_str (payment_hash_tag decoded)
          then ([Decode args_paymentRequest],
                Inl (Error ''Could not find payment hash in invoice''))
          else
            (case payInvoice nwc args_paymentRequest of
               Inl err \<Rightarrow> ([Decode args_paymentRequest, PayInvoice args_paymentRequest], Inl err)
             | Inr response_preimage \<Rightarrow>
                 ([Decode args_paymentRequest, PayInvoice args_paymentRequest],
                  Inr \<lparr>SendPaymentResponse.preimage = response_preimage,
                       paymentHash = the (payment_hash_tag decoded),
                       route =
                         \<lparr>total_amt =
                            (if truthy_str (millisatoshis decoded)
                             then js_div (parseInt10 (the (millisatoshis decoded))) (Num 1000)
                             else (case satoshis decoded of Some n \<Rightarrow> Num n | None \<Rightarrow> Num 0)),
                          total_fees = Num 0\<rparr>\<rparr>)))"

definition convertCustomRecords :: "(string \<times> string) list \<Rightarrow> TlvRecord list" where
  "convertCustomRecords customRecords =
     map (\<lambda>(key, v). \<lparr>TlvRecord.type = parseInt10 key, value = v\<rparr>) customRecords"

definition NWC_keysend ::
  "NWC \<Rightarrow> string \<Rightarrow> rat \<Rightarrow> (string \<times> string) list
     \<Rightarrow> nwc_call list \<times> (error + SendPaymentResponse)" where
  "NWC_keysend nwc args_pubkey args_amount args_customRecords =
     ([PayKeysend args_pubkey args_amount (convertCustomRecords args_customRecords)],
      case payKeysend nwc args_pubkey args_amount (convertCustomRecords args_customRecords) of
        Inl err \<Rightarrow> Inl err
      | Inr data_preimage \<Rightarrow>
          Inr \<lparr>SendPaymentResponse.preimage = data_preimage,
               paymentHash = SHA256_hex nwc data_preimage,
               route = \<lparr>total_amt = Num args_amount, total_fees = Num 0\<rparr>\<rparr>)"

definition NWC_checkPayment ::
  "NWC \<Rightarrow> string \<Rightarrow> nwc_call list \<times> (error + CheckPaymentResponse)" where
  "NWC_checkPayment nwc args_paymentHash =
     ([LookupInvoice args_paymentHash],
      case lookupInvoice nwc args_paymentHash of
        Inr response \<Rightarrow>
          Inr \<lparr>paid = truthy_num (settled_at response),
               preimage = Some (Nip47Transaction.preimage response)\<rparr>
      | Inl err \<Rightarrow> Inr \<lparr>paid = False, preimage = None\<rparr>)"

section \<open>Bitcoin: the Taproot preview and signing operations\<close>

subsection \<open>The parsed transaction proposal\<close>

text \<open>
  The fields of a parsed PSBT that the class \<open>Bitcoin\<close> reads. An optional field is an
  \<open>option\<close>; a buffer, once defined, is truthy whatever its length.
\<close>

record TapBip32Derivation =
  pubkey :: Buffer
  path :: string

record WitnessUtxo =
  script :: Buffer
  "value" :: int

record PsbtInput =
  tapInternalKey :: "Buffer option"
  tapBip32Derivation :: "TapBip32Derivation list option"
  witnessUtxo :: "WitnessUtxo option"
  tapKeySig :: "Buffer option"

record PsbtOutput =
  tapBip32Derivation :: "TapBip32Derivation list option"

record TxOutput =
  script :: Buffer
  "value" :: int
  address :: "string option"

record PsbtData =
  inputs :: "PsbtInput list"
  outputs :: "PsbtOutput list"

record Psbt =
  data :: PsbtData
  txOutputs :: "TxOutput list"

record Address =
  amount :: int
  address :: string

record PsbtPreview =
  inputs :: "Address list"
  outputs :: "Address list"

record KeyPair =
  privateKey :: "Buffer option"
  publicKey :: Buffer

record 'net Signer =
  publicKey :: Buffer
  privateKey :: "Buffer option"
  network :: 'net

text \<open>The first argument of \<open>btc.p2tr\<close>: the code passes a buffer or an address string.\<close>

datatype p2tr_key = KeyBuffer Buffer | KeyString string

text \<open>
  The calls that leave the class, in the order they are made: the key provider, the PSBT
  parser and the three mutating PSBT methods.
\<close>

datatype call =
  DeriveKey string
  | FromHex string
  | SignTaprootInput nat
  | FinalizeAllInputs
  | ExtractTransaction

text \<open>
  The libraries and collaborators are parameters: the key provider \<open>mnemonic.deriveKey\<close>,
  \<open>bitcoin.Psbt.fromHex\<close>, \<open>btc.p2tr(...).address\<close>, \<open>ECPair.fromPrivateKey\<close>,
  the scalar operations of the curve library (\<open>privateAdd\<close> returns \<open>null\<close>, here
  \<open>None\<close>, for an invalid sum), \<open>bitcoin.crypto.taggedHash\<close>, and the PSBT's
  \<open>signTaprootInput\<close>, \<open>finalizeAllInputs\<close> and \<open>extractTransaction().toHex()\<close>.
\<close>

record 'net Lib =
  deriveKey :: "string \<Rightarrow> error + KeyPair"
  fromHex :: "string \<Rightarrow> 'net \<Rightarrow> error + Psbt"
  p2tr_address :: "p2tr_key \<Rightarrow> 'net \<Rightarrow> error + string option"
  fromPrivateKey :: "Buffer \<Rightarrow> 'net \<Rightarrow> error + 'net Signer"
  privateNegate :: "Buffer \<Rightarrow> error + Buffer"
  privateAdd :: "Buffer \<Rightarrow> Buffer \<Rightarrow> error + Buffer option"
  taggedHash :: "string \<Rightarrow> Buffer \<Rightarrow> Buffer"
  signTaprootInput :: "Psbt \<Rightarrow> nat \<Rightarrow> 'net Signer \<Rightarrow> error + Psbt"
  finalizeAllInputs :: "Psbt \<Rightarrow> error + Psbt"
  extractTransaction_toHex :: "Psbt \<Rightarrow> error + string"

text \<open>The object: \<open>network\<close> is \<open>networks[networkType]\<close>, a table given at construction.\<close>

record 'net Bitcoin =
  networkType :: string
  network :: 'net

definition BTC_TAPROOT_DERIVATION_PATH :: string where
  "BTC_TAPROOT_DERIVATION_PATH = ''m/86'/0'/0'/0''"

definition BTC_TAPROOT_DERIVATION_PATH_REGTEST :: string where
  "BTC_TAPROOT_DERIVATION_PATH_REGTEST = ''m/86'/1'/0'/0''"

subsection \<open>tweakSigner\<close>

definition toXOnly :: "Buffer \<Rightarrow> Buffer" where
  "toXOnly pubKey = (if length pubKey = 32 then pubKey else take 32 (drop 1 pubKey))"

definition tapTweakHash :: "'net Lib \<Rightarrow> Buffer \<Rightarrow> Buffer option \<Rightarrow> Buffer" where
  "tapTweakHash lib pubKey h =
     taggedHash lib ''TapTweak''
       (case h of Some r \<Rightarrow> concat [pubKey, r] | None \<Rightarrow> concat [pubKey])"

text \<open>\<open>signer.publicKey[0] === 3\<close>: false on an empty buffer.\<close>

definition first_byte_is_3 :: "Buffer \<Rightarrow> bool" where
  "first_byte_is_3 b = (case b of [] \<Rightarrow> False | x # _ \<Rightarrow> x = 3)"

definition tweakSigner ::
  "'net Lib \<Rightarrow> 'net Signer \<Rightarrow> 'net \<Rightarrow> Buffer option \<Rightarrow> error + 'net Signer" where
  "tweakSigner lib signer opts_network opts_tweakHash =
     (case Signer.privateKey signer of
        None \<Rightarrow> Inl (Error ''Private key is required for tweaking signer!'')
      | Some privateKey0 \<Rightarrow>
          (case (if first_byte_is_3 (Signer.publicKey signer)
                 then privateNegate lib privateKey0 else Inr privateKey0) of
             Inl e \<Rightarrow> Inl e
           | Inr privateKey1 \<Rightarrow>
               (case privateAdd lib privateKey1
                       (tapTweakHash lib (toXOnly (Signer.publicKey signer)) opts_tweakHash) of
                  Inl e \<Rightarrow> Inl e
                | Inr None \<Rightarrow> Inl (Error ''Invalid tweaked private key!'')
                | Inr (Some tweakedPrivateKey) \<Rightarrow>
                    fromPrivateKey lib tweakedPrivateKey opts_network)))"

subsection \<open>signPsbt\<close>

text \<open>The \<open>forEach\<close> over the inputs: \<open>signTaprootInput(index, keyPair)\<close> for each index.\<close>

fun sign_inputs ::
  "'net Lib \<Rightarrow> 'net Signer \<Rightarrow> nat \<Rightarrow> nat \<Rightarrow> Psbt \<Rightarrow> call list \<times> (error + Psbt)" where
  "sign_inputs lib keyPair index 0 psbt = ([], Inr psbt)"
| "sign_inputs lib keyPair index (Suc n) psbt =
     (case signTaprootInput lib psbt index keyPair of
        Inl e \<Rightarrow> ([SignTaprootInput index], Inl e)
      | Inr psbt' \<Rightarrow>
          (let (tr, r) = sign_inputs lib keyPair (Suc index) n psbt'
           in (SignTaprootInput index # tr, r)))"

definition derivationPath :: "'net Bitcoin \<Rightarrow> string" where
  "derivationPath this =
     (if networkType this = ''bitcoin'' then BTC_TAPROOT_DERIVATION_PATH
      else BTC_TAPROOT_DERIVATION_PATH_REGTEST) @ ''/'' @ string_of_nat 0"

definition signPsbt :: "'net Lib \<Rightarrow> 'net Bitcoin \<Rightarrow> string \<Rightarrow> call list \<times> (error + string)" where
  "signPsbt lib this psbt =
     (case deriveKey lib (derivationPath this) of
        Inl e \<Rightarrow> ([DeriveKey (derivationPath this)], Inl e)
      | Inr derivedKey \<Rightarrow>
     (case fromHex lib psbt (network this) of
        Inl e \<Rightarrow> ([DeriveKey (derivationPath this), FromHex psbt], Inl e)
      | Inr taprootPsbt \<Rightarrow>
     (case (case KeyPair.privateKey derivedKey of
              None \<Rightarrow> Inl (TypeError ''The first argument must be a buffer'')
            | Some k \<Rightarrow> fromPrivateKey lib k (network this)) of
        Inl e \<Rightarrow> ([DeriveKey (derivationPath this), FromHex psbt], Inl e)
      | Inr ecpair \<Rightarrow>
     (case tweakSigner lib ecpair (network this) None of
        Inl e \<Rightarrow> ([DeriveKey (derivationPath this), FromHex psbt], Inl e)
      | Inr keyPair \<Rightarrow>
     (case sign_inputs lib keyPair 0 (length (PsbtData.inputs (data taprootPsbt))) taprootPsbt of
        (tr, Inl e) \<Rightarrow> ([DeriveKey (derivationPath this), FromHex psbt] @ tr, Inl e)
      | (tr, Inr signedPsbt) \<Rightarrow>
     (case finalizeAllInputs lib signedPsbt of
        Inl e \<Rightarrow>
          ([DeriveKey (derivationPath this), FromHex psbt] @ tr @ [FinalizeAllInputs], Inl e)
      | Inr finalPsbt \<Rightarrow>
          ([DeriveKey (derivationPath this), FromHex psbt] @ tr
             @ [FinalizeAllInputs, ExtractTransaction],
           extractTransaction_toHex lib finalPsbt)))))))"

subsection \<open>getPsbtPreview\<close>

text \<open>
  The input loop from index \<open>i\<close> on. The public key is \<open>tapInternalKey\<close>, or else
  \<open>tapBip32Derivation?.[0]?.pubkey\<close>, which is \<open>undefined\<close> also for an empty list.
\<close>

definition input_pubkey :: "PsbtInput \<Rightarrow> Buffer option" where
  "input_pubkey inp =
     (case tapInternalKey inp of
        Some k \<Rightarrow> Some k
      | None \<Rightarrow>
          (case PsbtInput.tapBip32Derivation inp of
             None \<Rightarrow> None
           | Some [] \<Rightarrow> None
           | Some (d # _) \<Rightarrow> Some (pubkey d)))"

fun preview_inputs :: "'net Lib \<Rightarrow> 'net \<Rightarrow> nat \<Rightarrow> PsbtInput list \<Rightarrow> error + Address list" where
  "preview_inputs lib net i [] = Inr []"
| "preview_inputs lib net i (inp # rest) =
     (if i > 0 then Inl (Error ''Multiple inputs currently unsupported'')
      else
        (case input_pubkey inp of
           None \<Rightarrow> Inl (Error (''No pubkey found in input '' @ string_of_nat i))
         | Some pk \<Rightarrow>
             (case p2tr_address lib (KeyBuffer pk) net of
                Inl e \<Rightarrow> Inl e
              | Inr a \<Rightarrow>
                  if \<not> truthy_str a
                  then Inl (Error (''No address found in input '' @ string_of_nat i))
                  else
                    (case witnessUtxo inp of
                       None \<Rightarrow> Inl (Error (''No witnessUtxo in input '' @ string_of_nat i))
                     | Some w \<Rightarrow>
                         (case preview_inputs lib net (Suc i) rest of
                            Inl e \<Rightarrow> Inl e
                          | Inr addrs \<Rightarrow>
                              Inr (\<lparr>amount = WitnessUtxo.value w, address = the a\<rparr> # addrs))))))"

text \<open>
  One turn of the output loop, on \<open>txOutputs[i]\<close> (\<open>None\<close> when \<open>i\<close> is out of range)
  and \<open>data.outputs[i]\<close>. \<open>output.tapBip32Derivation?.[0].pubkey\<close> reads \<open>.pubkey\<close>
  of \<open>undefined\<close> when the list is defined and empty: a \<open>TypeError\<close>, as is reading a
  field of a missing \<open>txOutput\<close>. \<open>pubkey || txOutput.address\<close> is then a buffer, a
  non-empty address string, or falsy.
\<close>

definition output_pubkey :: "TxOutput option \<Rightarrow> PsbtOutput \<Rightarrow> error + p2tr_key option" where
  "output_pubkey txOutput output =
     (case PsbtOutput.tapBip32Derivation output of
        Some [] \<Rightarrow> Inl (TypeError ''Cannot read properties of undefined (reading 'pubkey')'')
      | Some (d # _) \<Rightarrow> Inr (Some (KeyBuffer (pubkey d)))
      | None \<Rightarrow>
          (case txOutput of
             None \<Rightarrow> Inl (TypeError ''Cannot read properties of undefined (reading 'address')'')
           | Some tx \<Rightarrow>
               if truthy_str (TxOutput.address tx)
               then Inr (Some (KeyString (the (TxOutput.address tx))))
               else Inr None))"

definition preview_output ::
  "'net Lib \<Rightarrow> 'net \<Rightarrow> nat \<Rightarrow> TxOutput option \<Rightarrow> PsbtOutput \<Rightarrow> error + Address" where
  "preview_output lib net i txOutput output =
     (case output_pubkey txOutput output of
        Inl e \<Rightarrow> Inl e
      | Inr k \<Rightarrow>
          (case (case k of
                   Some key \<Rightarrow> p2tr_address lib key net
                 | None \<Rightarrow> Inr (Some ''UNKNOWN'')) of
             Inl e \<Rightarrow> Inl e
           | Inr a \<Rightarrow>
               if \<not> truthy_str a
               then Inl (Error (''No address found in output '' @ string_of_nat i))
               else
                 (case txOutput of
                    None \<Rightarrow> Inl (TypeError ''Cannot read properties of undefined (reading 'value')'')
                  | Some tx \<Rightarrow> Inr \<lparr>amount = TxOutput.value tx, address = the a\<rparr>)))"

text \<open>The output loop from index \<open>i\<close> on.\<close>

fun preview_outputs ::
  "'net Lib \<Rightarrow> 'net \<Rightarrow> TxOutput list \<Rightarrow> nat \<Rightarrow> PsbtOutput list \<Rightarrow> error + Address list" where
  "preview_outputs lib net txs i [] = Inr []"
| "preview_outputs lib net txs i (output # rest) =
     (case preview_output lib net i (if i < length txs then Some (txs ! i) else None) output of
        Inl e \<Rightarrow> Inl e
      | Inr a \<Rightarrow>
          (case preview_outputs lib net txs (Suc i) rest of
             Inl e \<Rightarrow> Inl e
           | Inr addrs \<Rightarrow> Inr (a # addrs)))"

definition getPsbtPreview :: "'net Lib \<Rightarrow> 'net Bitcoin \<Rightarrow> string \<Rightarrow> error + PsbtPreview" where
  "getPsbtPreview lib this psbt =
     (case fromHex lib psbt (network this) of
        Inl e \<Rightarrow> Inl e
      | Inr unsignedPsbt \<Rightarrow>
          (case preview_inputs lib (network this) 0 (PsbtData.inputs (data unsignedPsbt)) of
             Inl e \<Rightarrow> Inl e
           | Inr ins \<Rightarrow>
               (case preview_outputs lib (network this) (txOutputs unsignedPsbt) 0
                       (PsbtData.outputs (data unsignedPsbt)) of
                  Inl e \<Rightarrow> Inl e
                | Inr outs \<Rightarrow> Inr \<lparr>inputs = ins, outputs = outs\<rparr>)))"

subsection \<open>The specification's wording\<close>

text \<open>
  An output is unresolved when it has neither a derivation record nor a destination
  address.
\<close>

definition unresolved_output :: "TxOutput \<Rightarrow> PsbtOutput \<Rightarrow> bool" where
  "unresolved_output tx out =
     (PsbtOutput.tapBip32Derivation out = None \<and> \<not> truthy_str (TxOutput.address tx))"

text \<open>
  Modelled from the spec: the two scalar operations of the curve library, which is not
  part of the sources. A scalar is a buffer of 32 bytes read as a big-endian number; a
  private scalar lies strictly between 0 and the curve order, a tweak below the curve
  order. The library throws on an argument that is neither; \<open>privateNegate\<close> negates
  modulo the curve order; \<open>privateAdd\<close> adds modulo the curve order and returns \<open>null\<close>
  (here \<open>None\<close>) when the sum is zero.
\<close>

definition curve_order :: nat where
  "curve_order = 0xFFFFFFFFFFFFFFFFFFFFFFFFFFFFFFFEBAAEDCE6AF48A03BBFD25E8CD0364141"

definition scalar_of :: "Buffer \<Rightarrow> nat" where
  "scalar_of bs = foldl (\<lambda>a b. 256 * a + unat b) 0 bs"

fun bytes_of :: "nat \<Rightarrow> nat \<Rightarrow> Buffer" where
  "bytes_of 0 x = []"
| "bytes_of (Suc k) x = bytes_of k (x div 256) @ [of_nat (x mod 256)]"

definition isPrivate :: "Buffer \<Rightarrow> bool" where
  "isPrivate d = (length d = 32 \<and> 0 < scalar_of d \<and> scalar_of d < curve_order)"

definition isTweak :: "Buffer \<Rightarrow> bool" where
  "isTweak t = (length t = 32 \<and> scalar_of t < curve_order)"

definition secp256k1_privateNegate :: "Buffer \<Rightarrow> error + Buffer" where
  "secp256k1_privateNegate d =
     (if \<not> isPrivate d then Inl (TypeError ''Expected Private'')
      else Inr (bytes_of 32 ((curve_order - scalar_of d) mod curve_order)))"

definition secp256k1_privateAdd :: "Buffer \<Rightarrow> Buffer \<Rightarrow> error + Buffer option" where
  "secp256k1_privateAdd d t =
     (if \<not> isPrivate d then Inl (TypeError ''Expected Private'')
      else if \<not> isTweak t then Inl (TypeError ''Expected Tweak'')
      else if (scalar_of d + scalar_of t) mod curve_order = 0 then Inr None
      else Inr (Some (bytes_of 32 ((scalar_of d + scalar_of t) mod curve_order))))"

text \<open>
  The key tweak as the specification words it. The X-only public key of a key of 32 or
  33 bytes is its X coordinate: the last 32 bytes, without the parity byte of a 33-byte
  key. The tweaked scalar is the private scalar, negated modulo the curve order when
  the Y coordinate is odd, plus the hash, modulo the curve order.
\<close>

definition x_only :: "Buffer \<Rightarrow> Buffer" where
  "x_only pub = drop (length pub - 32) pub"

definition tweaked_scalar :: "bool \<Rightarrow> nat \<Rightarrow> nat \<Rightarrow> nat" where
  "tweaked_scalar odd_y d t = ((if odd_y then curve_order - d else d) + t) mod curve_order"

section \<open>Instances for the examples\<close>

text \<open>
  A small instance of the libraries, to run the operations on concrete proposals. It
  stands for no particular library: bytewise operations take the place of the curve's
  scalar arithmetic and of the hash. Further down, a node's answers and a wallet service
  for the connectors, of the same kind.
\<close>

text \<open>
  As \<open>btc.p2tr\<close> does, the instance takes a string key for the hex of a public key of
  32 bytes, and throws on any other string.
\<close>

definition is_hex_key :: "string \<Rightarrow> bool" where
  "is_hex_key s = (length s = 64 \<and> list_all (\<lambda>c. c \<in> set ''0123456789abcdefABCDEF'') s)"

definition example_sign :: "Psbt \<Rightarrow> nat \<Rightarrow> unit Signer \<Rightarrow> error + Psbt" where
  "example_sign p i signer =
     (if i < length (PsbtData.inputs (data p))
      then Inr (p\<lparr>data := (data p)\<lparr>PsbtData.inputs :=
             (PsbtData.inputs (data p))[i := (PsbtData.inputs (data p) ! i)\<lparr>tapKeySig := Signer.privateKey signer\<rparr>]\<rparr>\<rparr>)
      else Inl (Error ''No input''))"

definition example_finalize :: "Psbt \<Rightarrow> error + Psbt" where
  "example_finalize p =
     (if PsbtData.inputs (data p) = [] then Inl (Error ''No input #0'')
      else if list_all (\<lambda>i. tapKeySig i \<noteq> None) (PsbtData.inputs (data p)) then Inr p
      else Inl (Error ''Can not finalize input''))"

definition example_lib :: "Psbt \<Rightarrow> unit Lib" where
  "example_lib p =
     \<lparr>deriveKey = (\<lambda>path. Inr \<lparr>KeyPair.privateKey = Some [5, 1], KeyPair.publicKey = [3, 8, 9]\<rparr>),
      fromHex = (\<lambda>hex net. Inr p),
      p2tr_address = (\<lambda>k net. case k of
           KeyBuffer b \<Rightarrow> if b = [] then Inl (Error ''p2tr: non-schnorr pubkey'') else Inr (Some ''bc1p-key'')
         | KeyString s \<Rightarrow>
             if is_hex_key s then Inr (Some ''bc1p-key'')
             else Inl (Error ''p2tr: a string key must be the hex of a public key'')),
      fromPrivateKey = (\<lambda>k net. if k = [] then Inl (Error ''Private key not in range'')
           else Inr \<lparr>Signer.publicKey = 3 # k, Signer.privateKey = Some k, network = net\<rparr>),
      privateNegate = (\<lambda>d. Inr (map uminus d)),
      privateAdd = (\<lambda>d t. if list_all (\<lambda>x. x = 0) (map2 (+) d t) then Inr None
           else Inr (Some (map2 (+) d t))),
      taggedHash = (\<lambda>tag msg. rev msg),
      signTaprootInput = example_sign,
      finalizeAllInputs = example_finalize,
      extractTransaction_toHex = (\<lambda>p. Inr ''0200'')\<rparr>"

definition example_input :: PsbtInput where
  "example_input =
     \<lparr>tapInternalKey = Some [7, 7], PsbtInput.tapBip32Derivation = None,
      witnessUtxo = Some \<lparr>WitnessUtxo.script = [], WitnessUtxo.value = 50000\<rparr>, tapKeySig = None\<rparr>"

definition example_psbt :: "nat \<Rightarrow> Psbt" where
  "example_psbt n =
     \<lparr>data = \<lparr>PsbtData.inputs = replicate n example_input, PsbtData.outputs = []\<rparr>, txOutputs = []\<rparr>"

definition example_wallet :: "unit Bitcoin" where
  "example_wallet = \<lparr>networkType = ''bitcoin'', network = ()\<rparr>"

text \<open>
  A proposal whose first output has a derivation record and whose second has neither a
  record nor a destination address; and a proposal whose only output pays to an address
  of another wallet: it has a destination address and no derivation record.
\<close>

definition example_psbt_outputs :: Psbt where
  "example_psbt_outputs =
     \<lparr>data = \<lparr>PsbtData.inputs = [example_input],
              PsbtData.outputs =
                [\<lparr>PsbtOutput.tapBip32Derivation = Some [\<lparr>pubkey = [4, 2], path = ''m/86'/0'/0'/0/1''\<rparr>]\<rparr>,
                 \<lparr>PsbtOutput.tapBip32Derivation = None\<rparr>]\<rparr>,
      txOutputs =
        [\<lparr>TxOutput.script = [], TxOutput.value = 30000, TxOutput.address = Some ''ignored''\<rparr>,
         \<lparr>TxOutput.script = [], TxOutput.value = 4000, TxOutput.address = None\<rparr>]\<rparr>"

definition example_psbt_destination :: Psbt where
  "example_psbt_destination =
     \<lparr>data = \<lparr>PsbtData.inputs = [example_input],
              PsbtData.outputs = [\<lparr>PsbtOutput.tapBip32Derivation = None\<rparr>]\<rparr>,
      txOutputs =
        [\<lparr>TxOutput.script = [], TxOutput.value = 49000,
          TxOutput.address =
            Some ''bc1p5cyxnuxmeuwuvkwfem96lqzszd02n6xdcjrs20cac6yqjjwudpxqkedrcr''\<rparr>]\<rparr>"

text \<open>
  An instance for the key tweak: the scalar operations of the curve, and the library's
  hash and key pairs at the points of one example, the key pair of the private key
  \<open>n - 1\<close> (\<open>n\<close> the curve order), whose public key is the negated generator. There
  the values are those the libraries compute; elsewhere the hash is empty and the key
  pair refused.
\<close>

definition generator_x :: Buffer where
  "generator_x =
     [0x79, 0xBE, 0x66, 0x7E, 0xF9, 0xDC, 0xBB, 0xAC, 0x55, 0xA0, 0x62, 0x95, 0xCE, 0x87, 0x0B, 0x07,
      0x02, 0x9B, 0xFC, 0xDB, 0x2D, 0xCE, 0x28, 0xD9, 0x59, 0xF2, 0x81, 0x5B, 0x16, 0xF8, 0x17, 0x98]"

definition key_minus_one :: Buffer where
  "key_minus_one =
     [0xFF, 0xFF, 0xFF, 0xFF, 0xFF, 0xFF, 0xFF, 0xFF, 0xFF, 0xFF, 0xFF, 0xFF, 0xFF, 0xFF, 0xFF, 0xFE,
      0xBA, 0xAE, 0xDC, 0xE6, 0xAF, 0x48, 0xA0, 0x3B, 0xBF, 0xD2, 0x5E, 0x8C, 0xD0, 0x36, 0x41, 0x40]"

definition tap_tweak_of_generator :: Buffer where
  "tap_tweak_of_generator =
     [0x3C, 0xF5, 0x21, 0x6D, 0x47, 0x6A, 0x5E, 0x63, 0x7B, 0xF0, 0xDA, 0x67, 0x4E, 0x50, 0xDD, 0xF5,
      0x5C, 0x40, 0x32, 0x70, 0xDD, 0x36, 0x49, 0x4D, 0xFC, 0xCA, 0x43, 0x81, 0x32, 0xFA, 0x30, 0xE7]"

definition tweaked_key :: Buffer where
  "tweaked_key =
     [0x3C, 0xF5, 0x21, 0x6D, 0x47, 0x6A, 0x5E, 0x63, 0x7B, 0xF0, 0xDA, 0x67, 0x4E, 0x50, 0xDD, 0xF5,
      0x5C, 0x40, 0x32, 0x70, 0xDD, 0x36, 0x49, 0x4D, 0xFC, 0xCA, 0x43, 0x81, 0x32, 0xFA, 0x30, 0xE8]"

definition tweaked_point :: Buffer where
  "tweaked_point =
     [0x03,
      0xDA, 0x47, 0x10, 0x96, 0x4F, 0x78, 0x52, 0x69, 0x5D, 0xE2, 0xDA, 0x02, 0x52, 0x90, 0xE2, 0x4A,
      0xF6, 0xD8, 0xC2, 0x81, 0xDE, 0x5A, 0x0B, 0x90, 0x2B, 0x71, 0x35, 0xFD, 0x9F, 0xD7, 0x4D, 0x21]"

definition bip341_taggedHash :: "string \<Rightarrow> Buffer \<Rightarrow> Buffer" where
  "bip341_taggedHash tag msg =
     (if tag = ''TapTweak'' \<and> msg = generator_x then tap_tweak_of_generator else [])"

definition bip341_fromPrivateKey :: "Buffer \<Rightarrow> unit \<Rightarrow> error + unit Signer" where
  "bip341_fromPrivateKey k net =
     (if k = key_minus_one
      then Inr \<lparr>Signer.publicKey = 3 # generator_x, Signer.privateKey = Some k, network = net\<rparr>
      else if k = tweaked_key
      then Inr \<lparr>Signer.publicKey = tweaked_point, Signer.privateKey = Some k, network = net\<rparr>
      else Inl (Rejection ''a key outside the example''))"

definition bip341_lib :: "unit Lib" where
  "bip341_lib =
     (example_lib (example_psbt 0))
       \<lparr>fromPrivateKey := bip341_fromPrivateKey,
        privateNegate := secp256k1_privateNegate,
        privateAdd := secp256k1_privateAdd,
        taggedHash := bip341_taggedHash\<rparr>"

definition bip341_signer :: "unit Signer" where
  "bip341_signer =
     \<lparr>Signer.publicKey = 3 # generator_x, Signer.privateKey = Some key_minus_one, network = ()\<rparr>"

definition example_config :: Config where
  "example_config =
     \<lparr>host = ''node.example'', port = 9735, rune = ''rune-abc'', Config.pubkey = ''02ab'',
      wsProxy = [], Config.privateKey = ''d1''\<rparr>"

definition example_pay_response :: CommandoPayInvoiceResponse where
  "example_pay_response =
     \<lparr>CommandoPayInvoiceResponse.payment_preimage = ''aa'',
      CommandoPayInvoiceResponse.payment_hash = ''bb'',
      CommandoPayInvoiceResponse.amount_msat = ''21000msat'',
      amount_sent_msat = ''21500msat''\<rparr>"

definition example_transaction :: "string \<Rightarrow> rat option \<Rightarrow> Nip47Transaction" where
  "example_transaction kind settled_time =
     \<lparr>Nip47Transaction.type = kind, invoice = ''lnbc1'', Nip47Transaction.description = ''coffee'',
      Nip47Transaction.preimage = ''0011'', Nip47Transaction.payment_hash = None,
      Nip47Transaction.amount = 21, settled_at = settled_time\<rparr>"

definition example_decoded :: DecodedInvoice where
  "example_decoded =
     \<lparr>tags = [\<lparr>tagName = ''description'', Tag.data = ''coffee''\<rparr>,
              \<lparr>tagName = ''payment_hash'', Tag.data = ''abcd''\<rparr>],
      millisatoshis = Some ''1500'', satoshis = None\<rparr>"

definition example_decoded_nohash :: DecodedInvoice where
  "example_decoded_nohash =
     \<lparr>tags = [\<lparr>tagName = ''description'', Tag.data = ''tea''\<rparr>],
      millisatoshis = None, satoshis = Some 3\<rparr>"

definition example_decode :: "string \<Rightarrow> error + DecodedInvoice" where
  "example_decode s =
     (if s = ''lnbc1'' then Inr example_decoded
      else if s = ''lnbc-nohash'' then Inr example_decoded_nohash
      else Inl (Error ''Not a proper lightning payment request''))"

definition example_nwc :: NWC where
  "example_nwc =
     \<lparr>listTransactions = (\<lambda>unpaid limit.
          Inr [example_transaction ''incoming'' (Some 1700000000),
               example_transaction ''outgoing'' (Some 1700000600)]),
      makeInvoice = (\<lambda>amt memo. Inr (example_transaction ''incoming'' None)),
      payInvoice = (\<lambda>pr. Inr ''0011''),
      payKeysend = (\<lambda>pk amt tlvs. Inr ''0022''),
      lookupInvoice = (\<lambda>h. if h = ''abcd'' then Inr (example_transaction ''incoming'' (Some 1700000000))
                            else Inl (Rejection ''NOT_FOUND'')),
      decode = example_decode,
      SHA256_hex = (\<lambda>s. ''sha256-of-'' @ s),
      parseFloat = (\<lambda>s. NaN)\<rparr>"

text \<open>The service answering \<open>makeInvoice\<close> with a given payment request and hash.\<close>

definition example_nwc_invoice :: "string \<Rightarrow> string option \<Rightarrow> NWC" where
  "example_nwc_invoice pr h =
     example_nwc\<lparr>makeInvoice := (\<lambda>amt memo.
        Inr ((example_transaction ''incoming'' None)
               \<lparr>invoice := pr, Nip47Transaction.payment_hash := h\<rparr>))\<rparr>"

definition example_invoices :: "string \<Rightarrow> CommandoInvoice list" where
  "example_invoices st =
     [\<lparr>label = ''l1'', status = st, CommandoInvoice.description = ''coffee'',
       amount_received_msat = 21000, CommandoInvoice.bolt11 = ''lnbc1'',
       CommandoInvoice.payment_preimage = ''0011'', paid_at = 1700000000,
       CommandoInvoice.payment_hash = ''abcd''\<rparr>]"

section \<open>Properties of the Bitcoin operations\<close>

lemma string_of_nat_0: "string_of_nat 0 = ''0''"
  by (simp add: string_of_nat.simps digit_char_def)

lemma derivationPath_example: "derivationPath example_wallet = ''m/86'/0'/0'/0/0''"
  by (simp add: derivationPath_def example_wallet_def BTC_TAPROOT_DERIVATION_PATH_def string_of_nat_0)

lemma preview_inputs_second:
  "preview_inputs lib net 0 (a # b # rest) =
     (case preview_inputs lib net 0 [a] of
        Inl e \<Rightarrow> Inl e
      | Inr _ \<Rightarrow> Inl (Error ''Multiple inputs currently unsupported''))"
  by (simp split: option.splits sum.splits)

lemma preview_inputs_deriveKey [simp]:
  "preview_inputs (lib\<lparr>deriveKey := dk\<rparr>) net i ins = preview_inputs lib net i ins"
  by (induction ins arbitrary: i) (simp_all split: option.splits sum.splits)

lemma preview_outputs_deriveKey [simp]:
  "preview_outputs (lib\<lparr>deriveKey := dk\<rparr>) net txs i outs = preview_outputs lib net txs i outs"
  by (induction outs arbitrary: i) (simp_all add: preview_output_def split: option.splits sum.splits)

lemma sign_inputs_trace:
  "sign_inputs lib keyPair i n psbt = (tr, Inr q) \<Longrightarrow> tr = map SignTaprootInput [i..<i + n]"
proof (induction n arbitrary: i psbt tr)
  case 0
  then show ?case by simp
next
  case (Suc n)
  from Suc.prems obtain psbt' tr' where s: "signTaprootInput lib psbt i keyPair = Inr psbt'"
    and r: "sign_inputs lib keyPair (Suc i) n psbt' = (tr', Inr q)"
    and tr: "tr = SignTaprootInput i # tr'"
    by (auto split: sum.splits prod.splits)
  from Suc.IH [OF r] tr show ?case by (simp add: upt_rec [of i])
qed

lemma signPsbt_signs_every_input:
  assumes "fromHex lib hex (network this) = Inr p"
      and "signPsbt lib this hex = (tr, Inr tx)"
  shows "tr = [DeriveKey (derivationPath this), FromHex hex]
           @ map SignTaprootInput [0..<length (PsbtData.inputs (data p))]
           @ [FinalizeAllInputs, ExtractTransaction]"
  using assms
  by (auto simp: signPsbt_def split: sum.splits option.splits prod.splits
      dest: sign_inputs_trace)

lemma signPsbt_trace:
  "\<exists>tr. fst (signPsbt lib this hex) = DeriveKey (derivationPath this) # tr"
  by (simp add: signPsbt_def split: sum.splits option.splits prod.splits)

text \<open>
  Claim C1, as the code has it. \<open>getPsbtPreview\<close> rejects every proposal with two or
  more inputs with an error, and it never calls the key provider: replacing
  \<open>deriveKey\<close> changes no result. A proposal with no input is not rejected by the input
  loop: the preview has an empty input list and whatever the output loop gives.
  \<open>signPsbt\<close> checks no input count: for every proposal its first call is
  \<open>deriveKey\<close> on the derivation path, and when it returns a transaction it has
  signed every input of the proposal, in order, between the parsing and the
  finalization.
\<close>

theorem preview_rejects_many_inputs_sign_derives_first:
  "fromHex lib hex (network this) = Inr p \<Longrightarrow>
     (2 \<le> length (PsbtData.inputs (data p)) \<longrightarrow> (\<exists>e. getPsbtPreview lib this hex = Inl e)) \<and>
     (PsbtData.inputs (data p) = [] \<longrightarrow>
        getPsbtPreview lib this hex =
          (case preview_outputs lib (network this) (txOutputs p) 0 (PsbtData.outputs (data p)) of
             Inl e \<Rightarrow> Inl e
           | Inr outs \<Rightarrow> Inr \<lparr>inputs = [], outputs = outs\<rparr>)) \<and>
     getPsbtPreview (lib\<lparr>deriveKey := dk\<rparr>) this hex = getPsbtPreview lib this hex \<and>
     (\<exists>tr. fst (signPsbt lib this hex) = DeriveKey (derivationPath this) # tr) \<and>
     (\<forall>tr tx. signPsbt lib this hex = (tr, Inr tx) \<longrightarrow>
        tr = [DeriveKey (derivationPath this), FromHex hex]
               @ map SignTaprootInput [0..<length (PsbtData.inputs (data p))]
               @ [FinalizeAllInputs, ExtractTransaction])"
proof (intro conjI impI allI)
  assume p: "fromHex lib hex (network this) = Inr p"
  { assume "2 \<le> length (PsbtData.inputs (data p))"
    then obtain a b rest where "PsbtData.inputs (data p) = a # b # rest"
      by (cases "PsbtData.inputs (data p)"; cases "tl (PsbtData.inputs (data p))") auto
    then show "\<exists>e. getPsbtPreview lib this hex = Inl e"
      using p by (simp add: getPsbtPreview_def preview_inputs_second del: preview_inputs.simps split: sum.splits) }
  { assume "PsbtData.inputs (data p) = []"
    then show "getPsbtPreview lib this hex =
          (case preview_outputs lib (network this) (txOutputs p) 0 (PsbtData.outputs (data p)) of
             Inl e \<Rightarrow> Inl e
           | Inr outs \<Rightarrow> Inr \<lparr>inputs = [], outputs = outs\<rparr>)"
      using p by (simp add: getPsbtPreview_def) }
  show "getPsbtPreview (lib\<lparr>deriveKey := dk\<rparr>) this hex = getPsbtPreview lib this hex"
    by (simp add: getPsbtPreview_def split: sum.splits)
  show "\<exists>tr. fst (signPsbt lib this hex) = DeriveKey (derivationPath this) # tr"
    by (rule signPsbt_trace)
  show "tr = [DeriveKey (derivationPath this), FromHex hex]
               @ map SignTaprootInput [0..<length (PsbtData.inputs (data p))]
               @ [FinalizeAllInputs, ExtractTransaction]"
    if "signPsbt lib this hex = (tr, Inr tx)" for tr tx
    using p that by (rule signPsbt_signs_every_input)
qed

lemma example_psbt_0 [simp]: "example_psbt 0 = \<lparr>data = \<lparr>PsbtData.inputs = [], PsbtData.outputs = []\<rparr>, txOutputs = []\<rparr>"
  by (simp add: example_psbt_def)

lemma example_psbt_2 [simp]: "example_psbt 2 = \<lparr>data = \<lparr>PsbtData.inputs = [example_input, example_input], PsbtData.outputs = []\<rparr>, txOutputs = []\<rparr>"
  by (simp add: example_psbt_def eval_nat_numeral)

text \<open>
  Claim C1 as stated fails. With no input the preview returns an empty preview and
  \<open>signPsbt\<close> has derived the key and parsed the proposal before the library's
  finalization rejects it; with two inputs \<open>signPsbt\<close> derives the key, signs both
  inputs and returns the transaction.
\<close>

theorem input_count_not_checked_counterexample:
  "getPsbtPreview (example_lib (example_psbt 0)) example_wallet ''70736274ff'' = Inr \<lparr>inputs = [], outputs = []\<rparr> \<and>
   signPsbt (example_lib (example_psbt 0)) example_wallet ''70736274ff'' =
     ([DeriveKey ''m/86'/0'/0'/0/0'', FromHex ''70736274ff'', FinalizeAllInputs], Inl (Error ''No input #0'')) \<and>
   signPsbt (example_lib (example_psbt 2)) example_wallet ''70736274ff'' =
     ([DeriveKey ''m/86'/0'/0'/0/0'', FromHex ''70736274ff'', SignTaprootInput 0, SignTaprootInput 1,
       FinalizeAllInputs, ExtractTransaction], Inr ''0200'')"
  by (simp add: getPsbtPreview_def signPsbt_def example_lib_def example_wallet_def
      derivationPath_example [unfolded example_wallet_def] tweakSigner_def first_byte_is_3_def tapTweakHash_def toXOnly_def
      example_sign_def example_finalize_def example_input_def)

text \<open>Two inputs: the preview rejects, the signing signs both. No input: an empty preview.\<close>

theorem preview_rejects_many_inputs_sign_derives_first_witness:
  "fromHex (example_lib (example_psbt 2)) ''70736274ff'' (network example_wallet) = Inr (example_psbt 2) \<and>
   2 \<le> length (PsbtData.inputs (data (example_psbt 2))) \<and>
   getPsbtPreview (example_lib (example_psbt 2)) example_wallet ''70736274ff''
     = Inl (Error ''Multiple inputs currently unsupported'') \<and>
   signPsbt (example_lib (example_psbt 2)) example_wallet ''70736274ff'' =
     ([DeriveKey ''m/86'/0'/0'/0/0'', FromHex ''70736274ff'']
        @ map SignTaprootInput [0..<length (PsbtData.inputs (data (example_psbt 2)))]
        @ [FinalizeAllInputs, ExtractTransaction],
      Inr ''0200'') \<and>
   fromHex (example_lib (example_psbt 0)) ''70736274ff'' (network example_wallet) = Inr (example_psbt 0) \<and>
   PsbtData.inputs (data (example_psbt 0)) = [] \<and>
   getPsbtPreview (example_lib (example_psbt 0)) example_wallet ''70736274ff''
     = Inr \<lparr>inputs = [], outputs = []\<rparr>"
proof -
  have s2: "signPsbt (example_lib (example_psbt 2)) example_wallet ''70736274ff'' =
     ([DeriveKey ''m/86'/0'/0'/0/0'', FromHex ''70736274ff'', SignTaprootInput 0, SignTaprootInput 1,
       FinalizeAllInputs, ExtractTransaction], Inr ''0200'')"
    by (simp add: signPsbt_def example_lib_def example_wallet_def
        derivationPath_example [unfolded example_wallet_def] tweakSigner_def first_byte_is_3_def
        tapTweakHash_def toXOnly_def example_sign_def example_finalize_def example_input_def)
  have f2: "fromHex (example_lib (example_psbt 2)) ''70736274ff'' (network example_wallet) = Inr (example_psbt 2)"
    by (simp add: example_lib_def)
  have f0: "fromHex (example_lib (example_psbt 0)) ''70736274ff'' (network example_wallet) = Inr (example_psbt 0)"
    by (simp add: example_lib_def)
  have two: "[0..<length (PsbtData.inputs (data (example_psbt 2)))] = [0, 1]"
    by (simp add: upt_rec)
  from preview_rejects_many_inputs_sign_derives_first [OF f2]
  have "\<exists>e. getPsbtPreview (example_lib (example_psbt 2)) example_wallet ''70736274ff'' = Inl e"
    by simp
  then have p2: "getPsbtPreview (example_lib (example_psbt 2)) example_wallet ''70736274ff''
     = Inl (Error ''Multiple inputs currently unsupported'')"
    by (auto simp: getPsbtPreview_def example_lib_def example_wallet_def example_input_def
        input_pubkey_def)
  from preview_rejects_many_inputs_sign_derives_first [OF f0]
  have p0: "getPsbtPreview (example_lib (example_psbt 0)) example_wallet ''70736274ff''
     = Inr \<lparr>inputs = [], outputs = []\<rparr>"
    by simp
  show ?thesis using f2 f0 s2 two p2 p0 by simp
qed

lemma truthy_str_the: "truthy_str a \<Longrightarrow> Some (the a) = a"
  by (cases a) simp_all

lemma preview_output_txOutput:
  "preview_output lib net i txOutput out = Inr r \<Longrightarrow>
     \<exists>tx. txOutput = Some tx \<and> amount r = TxOutput.value tx"
  by (auto simp: preview_output_def split: sum.splits option.splits if_splits)

lemma preview_output_derivation:
  assumes "PsbtOutput.tapBip32Derivation out = Some (d # ds)"
      and "preview_output lib net i txOutput out = Inr r"
  shows "p2tr_address lib (KeyBuffer (pubkey d)) net = Inr (Some (Address.address r))"
  using assms
  by (auto simp: preview_output_def output_pubkey_def truthy_str_the
      split: sum.splits option.splits if_splits)

lemma preview_output_destination:
  assumes "PsbtOutput.tapBip32Derivation out = None"
      and "truthy_str (TxOutput.address tx)"
      and "preview_output lib net i (Some tx) out = Inr r"
  shows "p2tr_address lib (KeyString (the (TxOutput.address tx))) net = Inr (Some (Address.address r))"
  using assms
  by (auto simp: preview_output_def output_pubkey_def truthy_str_the
      split: sum.splits option.splits if_splits)

lemma preview_output_unresolved:
  "unresolved_output tx out \<Longrightarrow>
     preview_output lib net i (Some tx) out
       = Inr \<lparr>amount = TxOutput.value tx, address = ''UNKNOWN''\<rparr>"
  by (simp add: unresolved_output_def preview_output_def output_pubkey_def)

lemma preview_output_destination_throws:
  assumes "PsbtOutput.tapBip32Derivation out = None"
      and "truthy_str (TxOutput.address tx)"
      and "p2tr_address lib (KeyString (the (TxOutput.address tx))) net = Inl e"
  shows "preview_output lib net i (Some tx) out = Inl e"
  using assms by (simp add: preview_output_def output_pubkey_def)

text \<open>
  Claim C7 fails on the code for an output with a destination address and no derivation
  record. The code hands the address string to \<open>btc.p2tr\<close> in the place of a public
  key; the library takes a string for the hex of a key and throws on an address, so the
  turn of that output throws and the whole preview fails, where the claim has the
  destination reported. The two other branches do what the claim says: an output with a
  derivation record gets the address of the record's key, an output with neither gets
  \<open>UNKNOWN\<close>, each with the transaction output's value.
\<close>

theorem preview_destination_only_output_fails:
  "preview_output (example_lib example_psbt_destination) () 0
      (Some (txOutputs example_psbt_destination ! 0))
      (PsbtData.outputs (data example_psbt_destination) ! 0)
     = Inl (Error ''p2tr: a string key must be the hex of a public key'') \<and>
   getPsbtPreview (example_lib example_psbt_destination) example_wallet ''70736274ff''
     = Inl (Error ''p2tr: a string key must be the hex of a public key'') \<and>
   getPsbtPreview (example_lib example_psbt_outputs) example_wallet ''70736274ff'' =
     Inr \<lparr>inputs = [\<lparr>amount = 50000, address = ''bc1p-key''\<rparr>],
          outputs = [\<lparr>amount = 30000, address = ''bc1p-key''\<rparr>,
                     \<lparr>amount = 4000, address = ''UNKNOWN''\<rparr>]\<rparr>"
  by (simp add: getPsbtPreview_def example_lib_def example_wallet_def example_input_def
      example_psbt_outputs_def example_psbt_destination_def input_pubkey_def
      preview_output_def output_pubkey_def is_hex_key_def string_of_nat.simps)

lemma scalar_of_snoc: "scalar_of (bs @ [b]) = 256 * scalar_of bs + unat b"
  by (simp add: scalar_of_def)

lemma length_bytes_of [simp]: "length (bytes_of k x) = k"
  by (induction k arbitrary: x) simp_all

lemma scalar_of_bytes_of: "x < 256 ^ k \<Longrightarrow> scalar_of (bytes_of k x) = x"
proof (induction k arbitrary: x)
  case 0
  then show ?case by (simp add: scalar_of_def)
next
  case (Suc k)
  from Suc.prems have "x div 256 < 256 ^ k"
    by (simp add: less_mult_imp_div_less mult.commute)
  from Suc.IH [OF this] have "scalar_of (bytes_of k (x div 256)) = x div 256" .
  moreover have "unat (of_nat (x mod 256) :: 8 word) = x mod 256"
    by (simp add: unat_of_nat)
  ultimately show ?case by (simp add: scalar_of_snoc)
qed

lemma curve_order_less: "curve_order < 256 ^ 32"
  by (simp add: curve_order_def)

lemma curve_order_pos: "0 < curve_order"
  by (simp add: curve_order_def)

lemma scalar_bytes_of_32: "x < curve_order \<Longrightarrow> scalar_of (bytes_of 32 x) = x"
  using curve_order_less by (simp add: scalar_of_bytes_of)

lemma isPrivate_negated:
  assumes "isPrivate d"
  shows "isPrivate (bytes_of 32 (curve_order - scalar_of d))"
    and "scalar_of (bytes_of 32 (curve_order - scalar_of d)) = curve_order - scalar_of d"
proof -
  from assms have "0 < curve_order - scalar_of d" "curve_order - scalar_of d < curve_order"
    by (simp_all add: isPrivate_def)
  then show "isPrivate (bytes_of 32 (curve_order - scalar_of d))"
    and "scalar_of (bytes_of 32 (curve_order - scalar_of d)) = curve_order - scalar_of d"
    by (simp_all add: isPrivate_def scalar_bytes_of_32)
qed

lemma toXOnly_x_only:
  "length pub = 32 \<or> length pub = 33 \<Longrightarrow> toXOnly pub = x_only pub"
  by (auto simp: toXOnly_def x_only_def)

lemma first_byte_is_3_hd: "pub \<noteq> [] \<Longrightarrow> first_byte_is_3 pub = (hd pub = 3)"
  by (cases pub) (simp_all add: first_byte_is_3_def)

lemma tweakSigner_secp256k1:
  assumes neg: "privateNegate lib = secp256k1_privateNegate"
      and add: "privateAdd lib = secp256k1_privateAdd"
      and key: "Signer.privateKey signer = Some d"
      and pub: "length (Signer.publicKey signer) = 32 \<or> length (Signer.publicKey signer) = 33"
  shows "tweakSigner lib signer net merkleRoot =
     (let h = taggedHash lib ''TapTweak''
                (x_only (Signer.publicKey signer) @ (case merkleRoot of None \<Rightarrow> [] | Some r \<Rightarrow> r));
          r = tweaked_scalar (hd (Signer.publicKey signer) = 3) (scalar_of d) (scalar_of h)
      in if \<not> isPrivate d then Inl (TypeError ''Expected Private'')
         else if \<not> isTweak h then Inl (TypeError ''Expected Tweak'')
         else if r = 0 then Inl (Error ''Invalid tweaked private key!'')
         else fromPrivateKey lib (bytes_of 32 r) net)"
proof -
  from pub have ne: "Signer.publicKey signer \<noteq> []" by auto
  have x: "toXOnly (Signer.publicKey signer) = x_only (Signer.publicKey signer)"
    using pub by (rule toXOnly_x_only)
  have h: "tapTweakHash lib (x_only (Signer.publicKey signer)) merkleRoot =
      taggedHash lib ''TapTweak''
        (x_only (Signer.publicKey signer) @ (case merkleRoot of None \<Rightarrow> [] | Some r \<Rightarrow> r))"
    by (cases merkleRoot) (simp_all add: tapTweakHash_def)
  show ?thesis
  proof (cases "isPrivate d")
    case False
    then show ?thesis
      by (simp add: tweakSigner_def key neg add x h first_byte_is_3_hd [OF ne]
          secp256k1_privateNegate_def secp256k1_privateAdd_def Let_def)
  next
    case True
    have m: "(curve_order - scalar_of d) mod curve_order = curve_order - scalar_of d"
      using True by (simp add: isPrivate_def)
    show ?thesis
      using True isPrivate_negated [OF True]
      by (simp add: tweakSigner_def key neg add x h first_byte_is_3_hd [OF ne]
          secp256k1_privateNegate_def secp256k1_privateAdd_def Let_def m tweaked_scalar_def)
  qed
qed

text \<open>
  Claim C2. With the curve's scalar operations, for a signer with a private key and a
  public key of 32 or 33 bytes, \<open>tweakSigner\<close> hashes the X-only public key (followed
  by the Merkle root when there is one) under the tag \<open>TapTweak\<close>, and builds the key
  pair of the tweaked scalar of the specification: the private scalar, negated when the
  public key's first byte is 3, plus the hash, modulo the curve order. It fails with an
  error when that scalar is zero, and when the library refuses the private key or the
  hash as out of range. The result is a function of the public and the private key: two
  signers that agree on both get the same result.
\<close>

theorem tweakSigner_computes_tweak:
  assumes "privateNegate lib = secp256k1_privateNegate"
      and "privateAdd lib = secp256k1_privateAdd"
      and "Signer.privateKey signer = Some d"
      and "length (Signer.publicKey signer) = 32 \<or> length (Signer.publicKey signer) = 33"
  shows "tweakSigner lib signer net merkleRoot =
     (let h = taggedHash lib ''TapTweak''
                (x_only (Signer.publicKey signer) @ (case merkleRoot of None \<Rightarrow> [] | Some r \<Rightarrow> r));
          r = tweaked_scalar (hd (Signer.publicKey signer) = 3) (scalar_of d) (scalar_of h)
      in if \<not> isPrivate d then Inl (TypeError ''Expected Private'')
         else if \<not> isTweak h then Inl (TypeError ''Expected Tweak'')
         else if r = 0 then Inl (Error ''Invalid tweaked private key!'')
         else fromPrivateKey lib (bytes_of 32 r) net) \<and>
     (Signer.publicKey signer' = Signer.publicKey signer \<and> Signer.privateKey signer' = Some d \<longrightarrow>
        tweakSigner lib signer' net merkleRoot = tweakSigner lib signer net merkleRoot)"
proof
  show "tweakSigner lib signer net merkleRoot =
     (let h = taggedHash lib ''TapTweak''
                (x_only (Signer.publicKey signer) @ (case merkleRoot of None \<Rightarrow> [] | Some r \<Rightarrow> r));
          r = tweaked_scalar (hd (Signer.publicKey signer) = 3) (scalar_of d) (scalar_of h)
      in if \<not> isPrivate d then Inl (TypeError ''Expected Private'')
         else if \<not> isTweak h then Inl (TypeError ''Expected Tweak'')
         else if r = 0 then Inl (Error ''Invalid tweaked private key!'')
         else fromPrivateKey lib (bytes_of 32 r) net)"
    using assms by (rule tweakSigner_secp256k1)
  show "Signer.publicKey signer' = Signer.publicKey signer \<and> Signer.privateKey signer' = Some d \<longrightarrow>
        tweakSigner lib signer' net merkleRoot = tweakSigner lib signer net merkleRoot"
    using assms(3) by (auto simp: tweakSigner_def split: sum.splits option.splits)
qed

lemma bytes_of_numeral:
  "bytes_of (numeral k) x = bytes_of (pred_numeral k) (x div 256) @ [of_nat (x mod 256)]"
proof -
  have "bytes_of (Suc (pred_numeral k)) x
          = bytes_of (pred_numeral k) (x div 256) @ [of_nat (x mod 256)]"
    by (rule bytes_of.simps(2))
  then show ?thesis by (simp only: numeral_eq_Suc [of k, symmetric])
qed

lemma scalar_key_minus_one: "scalar_of key_minus_one = curve_order - 1"
  by (simp add: scalar_of_def key_minus_one_def curve_order_def)

lemma scalar_tap_tweak:
  "scalar_of tap_tweak_of_generator =
     0x3CF5216D476A5E637BF0DA674E50DDF55C403270DD36494DFCCA438132FA30E7"
  by (simp add: scalar_of_def tap_tweak_of_generator_def)

lemma bytes_tweaked_key:
  "bytes_of 32 0x3CF5216D476A5E637BF0DA674E50DDF55C403270DD36494DFCCA438132FA30E8 = tweaked_key"
  by (simp add: bytes_of_numeral tweaked_key_def)

text \<open>
  The key pair of the private key \<open>n - 1\<close>: its public key starts with 3, so the scalar
  is negated to 1, and the hash of the generator's X coordinate is added.
\<close>

theorem tweakSigner_computes_tweak_witness:
  "privateNegate bip341_lib = secp256k1_privateNegate \<and>
   privateAdd bip341_lib = secp256k1_privateAdd \<and>
   Signer.privateKey bip341_signer = Some key_minus_one \<and>
   length (Signer.publicKey bip341_signer) = 33 \<and>
   hd (Signer.publicKey bip341_signer) = 3 \<and>
   x_only (Signer.publicKey bip341_signer) = generator_x \<and>
   tweaked_scalar True (scalar_of key_minus_one) (scalar_of tap_tweak_of_generator)
     = scalar_of tweaked_key \<and>
   tweakSigner bip341_lib bip341_signer () None =
     Inr \<lparr>Signer.publicKey = tweaked_point, Signer.privateKey = Some tweaked_key, network = ()\<rparr>"
proof -
  have ops: "privateNegate bip341_lib = secp256k1_privateNegate"
    "privateAdd bip341_lib = secp256k1_privateAdd"
    "taggedHash bip341_lib = bip341_taggedHash"
    "fromPrivateKey bip341_lib = bip341_fromPrivateKey"
    by (simp_all add: bip341_lib_def)
  have key: "Signer.privateKey bip341_signer = Some key_minus_one"
    and pub: "Signer.publicKey bip341_signer = 3 # generator_x"
    by (simp_all add: bip341_signer_def)
  have len: "length generator_x = 32" "length key_minus_one = 32" "length tap_tweak_of_generator = 32"
    by (simp_all add: generator_x_def key_minus_one_def tap_tweak_of_generator_def)
  have x: "x_only (3 # generator_x) = generator_x"
    by (simp add: x_only_def len)
  have h: "bip341_taggedHash ''TapTweak'' generator_x = tap_tweak_of_generator"
    by (simp add: bip341_taggedHash_def)
  have r: "tweaked_scalar True (scalar_of key_minus_one) (scalar_of tap_tweak_of_generator)
      = 0x3CF5216D476A5E637BF0DA674E50DDF55C403270DD36494DFCCA438132FA30E8"
    by (simp add: tweaked_scalar_def scalar_key_minus_one scalar_tap_tweak curve_order_def)
  have sk: "scalar_of tweaked_key = 0x3CF5216D476A5E637BF0DA674E50DDF55C403270DD36494DFCCA438132FA30E8"
    by (simp add: scalar_of_def tweaked_key_def)
  have p: "isPrivate key_minus_one"
    by (simp add: isPrivate_def len scalar_key_minus_one) (simp add: curve_order_def)
  have t: "isTweak tap_tweak_of_generator"
    by (simp add: isTweak_def len scalar_tap_tweak curve_order_def)
  have f: "bip341_fromPrivateKey tweaked_key () =
      Inr \<lparr>Signer.publicKey = tweaked_point, Signer.privateKey = Some tweaked_key, network = ()\<rparr>"
    by (simp add: bip341_fromPrivateKey_def tweaked_key_def key_minus_one_def)
  have "tweakSigner bip341_lib bip341_signer () None =
     Inr \<lparr>Signer.publicKey = tweaked_point, Signer.privateKey = Some tweaked_key, network = ()\<rparr>"
    using tweakSigner_computes_tweak [OF ops(1) ops(2) key, of "()" None bip341_signer]
    by (simp add: pub len x ops h r p t f bytes_tweaked_key Let_def)
  then show ?thesis
    using ops key pub len x r sk by simp
qed

section \<open>Properties of the connectors\<close>

lemma is_digit_not_m: "is_digit c \<Longrightarrow> c \<noteq> CHR ''m''"
  by (auto simp: is_digit_def)

lemma replace_first_msat:
  "list_all is_digit ds \<Longrightarrow> replace_first ''msat'' [] (ds @ ''msat'') = ds"
  by (induction ds) (auto dest: is_digit_not_m)

lemma ToNumber_digits: "list_all is_digit ds \<Longrightarrow> ToNumber other ds = Num (of_nat (decimal ds))"
  by (simp add: ToNumber_def)

lemma parse_pay_response_msat:
  assumes "list_all is_digit a" and "list_all is_digit b"
      and "CommandoPayInvoiceResponse.amount_msat parsed = a @ ''msat''"
      and "amount_sent_msat parsed = b @ ''msat''"
  shows "route (parse_pay_response other parsed) =
           \<lparr>total_amt = Num (of_nat (decimal a) / 1000),
            total_fees = Num ((of_nat (decimal b) - of_nat (decimal a)) / 1000)\<rparr>"
  using assms by (simp add: parse_pay_response_def replace_first_msat ToNumber_digits Let_def)

text \<open>
  Claim C8. When the node reports both amounts as decimal digits followed by \<open>msat\<close>,
  the suffix is stripped from both strings, and \<open>sendPayment\<close> and \<open>keysend\<close> report
  \<open>total_amt\<close> as the amount divided by 1000 and \<open>total_fees\<close> as the amount sent minus
  the amount, divided by 1000: both are numbers, with no unit suffix.
\<close>

theorem Commando_pay_amounts_msat:
  assumes "list_all is_digit a" and "list_all is_digit b"
      and "CommandoPayInvoiceResponse.amount_msat parsed = a @ ''msat''"
      and "amount_sent_msat parsed = b @ ''msat''"
  shows
    "replace_first ''msat'' [] (CommandoPayInvoiceResponse.amount_msat parsed) = a \<and>
     replace_first ''msat'' [] (amount_sent_msat parsed) = b \<and>
     (\<forall>commando config args_paymentRequest.
        commando \<lparr>method = ''pay'', params = [(''bolt11'', JString args_paymentRequest)],
                  rune = Config.rune config\<rparr> = Inr parsed \<longrightarrow>
        (\<exists>r. snd (Commando_sendPayment commando other config args_paymentRequest) = Inr r \<and>
             route r = \<lparr>total_amt = Num (of_nat (decimal a) / 1000),
                        total_fees = Num ((of_nat (decimal b) - of_nat (decimal a)) / 1000)\<rparr>)) \<and>
     (\<forall>commando config args_pubkey args_amount args_customRecords.
        commando \<lparr>method = ''keysend'',
                  params = [(''destination'', JString args_pubkey),
                            (''msatoshi'', JNumber (Num (args_amount * 1000))),
                            (''extratlvs'', JObject (map (\<lambda>(key, v). (key, hex_encode v)) args_customRecords))],
                  rune = Config.rune config\<rparr> = Inr parsed \<longrightarrow>
        (\<exists>r. snd (Commando_keysend commando other config args_pubkey args_amount args_customRecords) = Inr r \<and>
             route r = \<lparr>total_amt = Num (of_nat (decimal a) / 1000),
                        total_fees = Num ((of_nat (decimal b) - of_nat (decimal a)) / 1000)\<rparr>))"
  using assms parse_pay_response_msat [OF assms, of other]
  by (simp add: Commando_sendPayment_def Commando_keysend_def replace_first_msat)

lemma decimal_21000: "decimal ''21000'' = 21000"
  by (simp add: decimal_def digit_value_def)

lemma decimal_21500: "decimal ''21500'' = 21500"
  by (simp add: decimal_def digit_value_def)

text \<open>An amount of 21000 msat sent with 500 msat of fees: 21 and one half.\<close>

theorem Commando_pay_amounts_msat_witness:
  "list_all is_digit ''21000'' \<and> list_all is_digit ''21500'' \<and>
   CommandoPayInvoiceResponse.amount_msat example_pay_response = ''21000'' @ ''msat'' \<and>
   amount_sent_msat example_pay_response = ''21500'' @ ''msat'' \<and>
   snd (Commando_sendPayment (\<lambda>req. Inr example_pay_response) (\<lambda>s. NaN) example_config ''lnbc1'') =
     Inr \<lparr>SendPaymentResponse.preimage = ''aa'', paymentHash = ''bb'',
          route = \<lparr>total_amt = Num 21, total_fees = Num (1 / 2)\<rparr>\<rparr>"
proof -
  have d: "list_all is_digit ''21000''" "list_all is_digit ''21500''"
    by (simp_all add: is_digit_def)
  have e: "CommandoPayInvoiceResponse.amount_msat example_pay_response = ''21000'' @ ''msat''"
    "amount_sent_msat example_pay_response = ''21500'' @ ''msat''"
    by (simp_all add: example_pay_response_def)
  from Commando_pay_amounts_msat [OF d e, of "\<lambda>s. NaN"]
  have "\<exists>r. snd (Commando_sendPayment (\<lambda>req. Inr example_pay_response) (\<lambda>s. NaN) example_config ''lnbc1'') = Inr r \<and>
             route r = \<lparr>total_amt = Num (of_nat (decimal ''21000'') / 1000),
                        total_fees = Num ((of_nat (decimal ''21500'') - of_nat (decimal ''21000'')) / 1000)\<rparr>"
    by simp
  then have "route (parse_pay_response (\<lambda>s. NaN) example_pay_response) = \<lparr>total_amt = Num 21, total_fees = Num (1 / 2)\<rparr>"
    by (auto simp: Commando_sendPayment_def decimal_21000 decimal_21500)
  then show ?thesis
    using d e by (simp add: Commando_sendPayment_def parse_pay_response_def example_pay_response_def Let_def)
qed

text \<open>
  Claim C9. Each of the nine operations of the Commando connector sends exactly one
  request, and the request's rune is the rune of the configuration, unchanged. The
  operations only read the configuration: none returns or builds another.
\<close>

theorem Commando_requests_carry_rune:
  "map CommandoRequest.rune (fst (Commando_connectPeer c1 config args_pubkey args_host)) = [Config.rune config] \<and>
   map CommandoRequest.rune (fst (Commando_getInvoices c2 Number_toString config)) = [Config.rune config] \<and>
   map CommandoRequest.rune (fst (Commando_getInfo c3 config)) = [Config.rune config] \<and>
   map CommandoRequest.rune (fst (Commando_getBalance c4 config)) = [Config.rune config] \<and>
   map CommandoRequest.rune (fst (Commando_sendPayment c5 other config args_paymentRequest)) = [Config.rune config] \<and>
   map CommandoRequest.rune (fst (Commando_keysend c6 other config args_pubkey args_amount args_customRecords)) = [Config.rune config] \<and>
   map CommandoRequest.rune (fst (Commando_checkPayment c7 config args_paymentHash)) = [Config.rune config] \<and>
   map CommandoRequest.rune (fst (Commando_signMessage c8 config args_message)) = [Config.rune config] \<and>
   map CommandoRequest.rune (fst (Commando_makeInvoice c9 other config uuid args_amount' args_memo)) = [Config.rune config]"
  by (simp add: Commando_connectPeer_def Commando_getInvoices_def Commando_getInfo_def
      Commando_getBalance_def Commando_sendPayment_def Commando_keysend_def
      Commando_checkPayment_def Commando_signMessage_def Commando_makeInvoice_def Let_def)

text \<open>
  Claim C3, as the code has it. The Commando connector reports \<open>paid\<close> exactly when the
  node lists one invoice and its status is \<open>paid\<close>, and not paid for no invoice or
  several; a lookup that rejects makes \<open>checkPayment\<close> reject with the same value. The
  NWC connector turns a lookup that throws into not paid, and otherwise reports \<open>paid\<close>
  exactly when the invoice found has a \<open>settled_at\<close> that is defined and not zero.
\<close>

theorem checkPayment_results:
  "(commando \<lparr>method = ''listinvoices'', params = [(''payment_hash'', JString args_paymentHash)],
              rune = Config.rune config\<rparr> = Inr invoices \<longrightarrow>
      snd (Commando_checkPayment commando config args_paymentHash) =
        Inr \<lparr>paid = (length invoices = 1 \<and> status (hd invoices) = ''paid''), preimage = None\<rparr>) \<and>
   (commando \<lparr>method = ''listinvoices'', params = [(''payment_hash'', JString args_paymentHash)],
              rune = Config.rune config\<rparr> = Inl err \<longrightarrow>
      snd (Commando_checkPayment commando config args_paymentHash) = Inl err) \<and>
   (lookupInvoice nwc args_paymentHash = Inl err \<longrightarrow>
      snd (NWC_checkPayment nwc args_paymentHash) = Inr \<lparr>paid = False, preimage = None\<rparr>) \<and>
   (lookupInvoice nwc args_paymentHash = Inr response \<longrightarrow>
      snd (NWC_checkPayment nwc args_paymentHash) =
        Inr \<lparr>paid = truthy_num (settled_at response),
             preimage = Some (Nip47Transaction.preimage response)\<rparr>)"
  by (cases invoices) (auto simp: Commando_checkPayment_def NWC_checkPayment_def Let_def)

text \<open>
  Claim C3 as stated fails for the Commando connector: when the lookup rejects,
  \<open>checkPayment\<close> rejects too, it does not answer \<open>{paid: false}\<close>.
\<close>

theorem Commando_checkPayment_propagates_counterexample:
  "snd (Commando_checkPayment (\<lambda>req. Inl (Rejection ''connection closed'')) example_config ''abcd'')
     = Inl (Rejection ''connection closed'') \<and>
   snd (Commando_checkPayment (\<lambda>req. Inl (Rejection ''connection closed'')) example_config ''abcd'')
     \<noteq> Inr \<lparr>paid = False, preimage = None\<rparr>"
  by (simp add: Commando_checkPayment_def Let_def)

text \<open>One paid invoice, one unpaid, none, two, a rejection; then the NWC connector.\<close>

theorem checkPayment_results_witness:
  "snd (Commando_checkPayment (\<lambda>req. Inr (example_invoices ''paid'')) example_config ''abcd'')
     = Inr \<lparr>paid = True, preimage = None\<rparr> \<and>
   snd (Commando_checkPayment (\<lambda>req. Inr (example_invoices ''unpaid'')) example_config ''abcd'')
     = Inr \<lparr>paid = False, preimage = None\<rparr> \<and>
   snd (Commando_checkPayment (\<lambda>req. Inr []) example_config ''abcd'')
     = Inr \<lparr>paid = False, preimage = None\<rparr> \<and>
   snd (Commando_checkPayment (\<lambda>req. Inr (example_invoices ''paid'' @ example_invoices ''paid''))
          example_config ''abcd'')
     = Inr \<lparr>paid = False, preimage = None\<rparr> \<and>
   snd (Commando_checkPayment (\<lambda>req. Inl (Error ''timeout'')) example_config ''abcd'')
     = Inl (Error ''timeout'') \<and>
   snd (NWC_checkPayment example_nwc ''ffff'') = Inr \<lparr>paid = False, preimage = None\<rparr> \<and>
   snd (NWC_checkPayment example_nwc ''abcd'') = Inr \<lparr>paid = True, preimage = Some ''0011''\<rparr>"
  using
    checkPayment_results [of "\<lambda>req. Inr (example_invoices ''paid'')" "''abcd''" example_config
        "example_invoices ''paid''" "Error ''timeout''" example_nwc
        "example_transaction ''incoming'' (Some 1700000000)"]
    checkPayment_results [of "\<lambda>req. Inr (example_invoices ''unpaid'')" "''abcd''" example_config
        "example_invoices ''unpaid''"]
    checkPayment_results [of "\<lambda>req. Inr []" "''abcd''" example_config "[]"]
    checkPayment_results [of "\<lambda>req. Inr (example_invoices ''paid'' @ example_invoices ''paid'')" "''abcd''" example_config
        "example_invoices ''paid'' @ example_invoices ''paid''"]
    checkPayment_results [of "\<lambda>req. Inl (Error ''timeout'')" "''abcd''" example_config _ "Error ''timeout''"]
    checkPayment_results [of _ "''ffff''" _ _ "Rejection ''NOT_FOUND''" example_nwc]
  by (simp add: example_invoices_def example_nwc_def example_transaction_def)

lemma payment_hash_tag_absent:
  "\<forall>t\<in>set (tags d). tagName t \<noteq> ''payment_hash'' \<Longrightarrow> payment_hash_tag d = None"
proof -
  have "\<forall>t\<in>set ts. tagName t \<noteq> ''payment_hash'' \<Longrightarrow>
        find_first (\<lambda>tag. tagName tag = ''payment_hash'') ts = None"
    for ts :: "Tag list"
    by (induction ts) simp_all
  then show "\<forall>t\<in>set (tags d). tagName t \<noteq> ''payment_hash'' \<Longrightarrow> payment_hash_tag d = None"
    by (simp add: payment_hash_tag_def)
qed

lemma is_digit_not_space: "is_digit c \<Longrightarrow> \<not> is_space c"
  by (auto simp: is_digit_def is_space_def)

lemma is_digit_not_sign: "is_digit c \<Longrightarrow> c \<noteq> CHR ''-'' \<and> c \<noteq> CHR ''+''"
  by (auto simp: is_digit_def)

lemma takeWhile_all: "list_all P xs \<Longrightarrow> takeWhile P xs = xs"
  by (induction xs) simp_all

lemma parseInt10_digits:
  assumes "list_all is_digit m" and "m \<noteq> []"
  shows "parseInt10 m = Num (of_nat (decimal m))"
proof -
  from assms have c: "is_digit (hd m)" by (cases m) simp_all
  have dw: "dropWhile is_space m = m"
    using assms(2) is_digit_not_space [OF c] by (cases m) simp_all
  have tw: "takeWhile is_digit m = m" using assms(1) by (rule takeWhile_all)
  show ?thesis
    unfolding parseInt10_def Let_def dw
    using is_digit_not_sign [OF c] assms(2) by (simp add: tw)
qed

text \<open>
  Claim C4. \<open>sendPayment\<close> decodes the payment request first. When the decoding throws,
  or the decoded request has no payment-hash tag (or an empty one), it fails after that
  single local call: no request is sent. Otherwise it sends one pay request, after the
  decoding, and on success reports the preimage, the tag's payment hash and a total
  amount of \<open>parseInt\<close> of the millisatoshi field divided by 1000 when that field is a
  non-empty string (its decimal value divided by 1000 when it is all digits), else the
  satoshi field, or 0 when both are missing.
\<close>

theorem NWC_sendPayment_decodes_first:
  "(decode nwc args_paymentRequest = Inl err \<longrightarrow>
      NWC_sendPayment nwc args_paymentRequest = ([Decode args_paymentRequest], Inl err)) \<and>
   (decode nwc args_paymentRequest = Inr decoded \<longrightarrow>
      (\<not> truthy_str (payment_hash_tag decoded) \<longrightarrow>
         NWC_sendPayment nwc args_paymentRequest =
           ([Decode args_paymentRequest], Inl (Error ''Could not find payment hash in invoice''))) \<and>
      ((\<forall>t\<in>set (tags decoded). tagName t \<noteq> ''payment_hash'') \<longrightarrow>
         \<not> truthy_str (payment_hash_tag decoded)) \<and>
      (truthy_str (payment_hash_tag decoded) \<longrightarrow>
         fst (NWC_sendPayment nwc args_paymentRequest) =
           [Decode args_paymentRequest, PayInvoice args_paymentRequest] \<and>
         (payInvoice nwc args_paymentRequest = Inl err \<longrightarrow>
            snd (NWC_sendPayment nwc args_paymentRequest) = Inl err) \<and>
         (payInvoice nwc args_paymentRequest = Inr response_preimage \<longrightarrow>
            snd (NWC_sendPayment nwc args_paymentRequest) =
              Inr \<lparr>SendPaymentResponse.preimage = response_preimage,
                   paymentHash = the (payment_hash_tag decoded),
                   route =
                     \<lparr>total_amt =
                        (case millisatoshis decoded of
                           Some m \<Rightarrow>
                             if m \<noteq> [] then js_div (parseInt10 m) (Num 1000)
                             else (case satoshis decoded of Some n \<Rightarrow> Num n | None \<Rightarrow> Num 0)
                         | None \<Rightarrow> (case satoshis decoded of Some n \<Rightarrow> Num n | None \<Rightarrow> Num 0)),
                      total_fees = Num 0\<rparr>\<rparr>)) \<and>
      (\<forall>m. millisatoshis decoded = Some m \<and> m \<noteq> [] \<and> list_all is_digit m \<longrightarrow>
           js_div (parseInt10 m) (Num 1000) = Num (of_nat (decimal m) / 1000)))"
  by (auto simp: NWC_sendPayment_def payment_hash_tag_absent parseInt10_digits
      split: option.splits sum.splits)

text \<open>
  A request with no payment-hash tag, one of 1500 millisatoshi, and a string that does
  not decode.
\<close>

theorem NWC_sendPayment_decodes_first_witness:
  "decode example_nwc ''lnbc-nohash'' = Inr example_decoded_nohash \<and>
   list_all (\<lambda>t. tagName t \<noteq> ''payment_hash'') (tags example_decoded_nohash) \<and>
   NWC_sendPayment example_nwc ''lnbc-nohash'' =
     ([Decode ''lnbc-nohash''], Inl (Error ''Could not find payment hash in invoice'')) \<and>
   decode example_nwc ''lnbc1'' = Inr example_decoded \<and>
   payInvoice example_nwc ''lnbc1'' = Inr ''0011'' \<and>
   NWC_sendPayment example_nwc ''lnbc1'' =
     ([Decode ''lnbc1'', PayInvoice ''lnbc1''],
      Inr \<lparr>SendPaymentResponse.preimage = ''0011'', paymentHash = ''abcd'',
           route = \<lparr>total_amt = Num (3 / 2), total_fees = Num 0\<rparr>\<rparr>) \<and>
   decode example_nwc ''garbage'' = Inl (Error ''Not a proper lightning payment request'') \<and>
   NWC_sendPayment example_nwc ''garbage'' =
     ([Decode ''garbage''], Inl (Error ''Not a proper lightning payment request''))"
proof -
  have d0: "decode example_nwc ''lnbc-nohash'' = Inr example_decoded_nohash"
    by (simp add: example_nwc_def example_decode_def)
  have t0: "\<forall>t\<in>set (tags example_decoded_nohash). tagName t \<noteq> ''payment_hash''"
    by (simp add: example_decoded_nohash_def)
  have r0: "NWC_sendPayment example_nwc ''lnbc-nohash'' =
     ([Decode ''lnbc-nohash''], Inl (Error ''Could not find payment hash in invoice''))"
    using NWC_sendPayment_decodes_first
      [of example_nwc "''lnbc-nohash''" "Error []" example_decoded_nohash "[]"] d0 t0
    by blast
  have d1: "decode example_nwc ''lnbc1'' = Inr example_decoded"
    by (simp add: example_nwc_def example_decode_def)
  have p1: "payInvoice example_nwc ''lnbc1'' = Inr ''0011''"
    by (simp add: example_nwc_def)
  have h1: "payment_hash_tag example_decoded = Some ''abcd''"
    by (simp add: payment_hash_tag_def example_decoded_def)
  have m1: "js_div (parseInt10 ''1500'') (Num 1000) = Num (3 / 2)"
    by (simp add: parseInt10_def is_space_def is_digit_def decimal_def digit_value_def Let_def)
  have "fst (NWC_sendPayment example_nwc ''lnbc1'') = [Decode ''lnbc1'', PayInvoice ''lnbc1''] \<and>
        snd (NWC_sendPayment example_nwc ''lnbc1'') =
          Inr \<lparr>SendPaymentResponse.preimage = ''0011'', paymentHash = ''abcd'',
               route = \<lparr>total_amt = Num (3 / 2), total_fees = Num 0\<rparr>\<rparr>"
    using NWC_sendPayment_decodes_first
      [of example_nwc "''lnbc1''" "Error []" example_decoded "''0011''"] d1 p1 h1 m1
    by (simp add: example_decoded_def)
  then have r1: "NWC_sendPayment example_nwc ''lnbc1'' =
     ([Decode ''lnbc1'', PayInvoice ''lnbc1''],
      Inr \<lparr>SendPaymentResponse.preimage = ''0011'', paymentHash = ''abcd'',
           route = \<lparr>total_amt = Num (3 / 2), total_fees = Num 0\<rparr>\<rparr>)"
    by (simp add: prod_eq_iff)
  have d2: "decode example_nwc ''garbage'' = Inl (Error ''Not a proper lightning payment request'')"
    by (simp add: example_nwc_def example_decode_def)
  have r2: "NWC_sendPayment example_nwc ''garbage'' =
     ([Decode ''garbage''], Inl (Error ''Not a proper lightning payment request''))"
    using NWC_sendPayment_decodes_first
      [of example_nwc "''garbage''" "Error ''Not a proper lightning payment request''"
          example_decoded "[]"] d2
    by blast
  show ?thesis using d0 t0 r0 d1 p1 r1 d2 r2 by (simp add: list_all_iff)
qed

text \<open>
  Claim C5. When the service answers a keysend with a preimage, the response carries
  that preimage, the hash the connector computes of it, and the requested amount.
\<close>

theorem NWC_keysend_hash_of_preimage:
  "payKeysend nwc args_pubkey args_amount (convertCustomRecords args_customRecords) = Inr data_preimage \<Longrightarrow>
     snd (NWC_keysend nwc args_pubkey args_amount args_customRecords) =
       Inr \<lparr>SendPaymentResponse.preimage = data_preimage,
            paymentHash = SHA256_hex nwc data_preimage,
            route = \<lparr>total_amt = Num args_amount, total_fees = Num 0\<rparr>\<rparr>"
  by (simp add: NWC_keysend_def)

theorem NWC_keysend_hash_of_preimage_witness:
  "payKeysend example_nwc ''02ab'' 21 (convertCustomRecords [(''7629169'', ''hello'')]) = Inr ''0022'' \<and>
   snd (NWC_keysend example_nwc ''02ab'' 21 [(''7629169'', ''hello'')]) =
       Inr \<lparr>SendPaymentResponse.preimage = ''0022'',
            paymentHash = ''sha256-of-0022'',
            route = \<lparr>total_amt = Num 21, total_fees = Num 0\<rparr>\<rparr>"
  using NWC_keysend_hash_of_preimage [of example_nwc "''02ab''" 21 "[(''7629169'', ''hello'')]" "''0022''"]
  by (simp add: example_nwc_def)

text \<open>
  Claim C6. When the service's answer has a payment hash (defined and not empty),
  \<open>makeInvoice\<close> returns it and decodes nothing. When it has none, the connector
  decodes the payment request of the answer and returns the payment-hash tag; it fails
  with the missing-payment-hash error exactly when that tag is missing (or empty) too. An
  error of the service or of the decoding is passed on as it is.
\<close>

theorem NWC_makeInvoice_payment_hash:
  "(makeInvoice nwc (invoice_amount nwc args_amount) args_memo = Inl err \<longrightarrow>
      NWC_makeInvoice nwc args_amount args_memo =
        ([MakeInvoice (invoice_amount nwc args_amount) args_memo], Inl err)) \<and>
   (makeInvoice nwc (invoice_amount nwc args_amount) args_memo = Inr made \<longrightarrow>
      (truthy_str (Nip47Transaction.payment_hash made) \<longrightarrow>
         NWC_makeInvoice nwc args_amount args_memo =
           ([MakeInvoice (invoice_amount nwc args_amount) args_memo],
            Inr \<lparr>paymentRequest = invoice made,
                 rHash = the (Nip47Transaction.payment_hash made)\<rparr>)) \<and>
      (\<not> truthy_str (Nip47Transaction.payment_hash made) \<longrightarrow>
         fst (NWC_makeInvoice nwc args_amount args_memo) =
           [MakeInvoice (invoice_amount nwc args_amount) args_memo, Decode (invoice made)] \<and>
         (decode nwc (invoice made) = Inl err \<longrightarrow>
            snd (NWC_makeInvoice nwc args_amount args_memo) = Inl err) \<and>
         (decode nwc (invoice made) = Inr decodedInvoice \<longrightarrow>
            (truthy_str (payment_hash_tag decodedInvoice) \<longrightarrow>
               snd (NWC_makeInvoice nwc args_amount args_memo) =
                 Inr \<lparr>paymentRequest = invoice made,
                      rHash = the (payment_hash_tag decodedInvoice)\<rparr>) \<and>
            (snd (NWC_makeInvoice nwc args_amount args_memo) =
               Inl (Error ''Could not find payment hash in invoice'')
             \<longleftrightarrow> \<not> truthy_str (payment_hash_tag decodedInvoice)))))"
  by (auto simp: NWC_makeInvoice_def Let_def split: sum.splits)

text \<open>
  An answer without a payment hash (the hash is read from the decoded request), one
  with a hash, one with no hash in the answer nor in the request, and one whose request
  does not decode.
\<close>

theorem NWC_makeInvoice_payment_hash_witness:
  "NWC_makeInvoice (example_nwc_invoice ''lnbc1'' None) (AmountNumber 1000) ''coffee'' =
     ([MakeInvoice 1000 ''coffee'', Decode ''lnbc1''],
      Inr \<lparr>paymentRequest = ''lnbc1'', rHash = ''abcd''\<rparr>) \<and>
   NWC_makeInvoice (example_nwc_invoice ''lnbc1'' (Some ''ffee'')) (AmountNumber 1000) ''coffee'' =
     ([MakeInvoice 1000 ''coffee''], Inr \<lparr>paymentRequest = ''lnbc1'', rHash = ''ffee''\<rparr>) \<and>
   NWC_makeInvoice (example_nwc_invoice ''lnbc-nohash'' None) (AmountString ''n/a'') ''tea'' =
     ([MakeInvoice 0 ''tea'', Decode ''lnbc-nohash''],
      Inl (Error ''Could not find payment hash in invoice'')) \<and>
   NWC_makeInvoice (example_nwc_invoice ''garbage'' (Some [])) (AmountNumber 5) ''tea'' =
     ([MakeInvoice 5 ''tea'', Decode ''garbage''],
      Inl (Error ''Not a proper lightning payment request''))"
proof -
  let ?made = "\<lambda>pr h. (example_transaction ''incoming'' None)
               \<lparr>invoice := pr, Nip47Transaction.payment_hash := h\<rparr>"
  have mk: "makeInvoice (example_nwc_invoice pr h) a m = Inr (?made pr h)" for pr h a m
    by (simp add: example_nwc_invoice_def)
  have dec: "decode (example_nwc_invoice pr h) = example_decode" for pr h
    by (simp add: example_nwc_invoice_def example_nwc_def)
  have amt: "invoice_amount (example_nwc_invoice pr h) (AmountNumber n) = n"
    "invoice_amount (example_nwc_invoice pr h) (AmountString s) = 0" for pr h n s
    by (simp_all add: invoice_amount_def example_nwc_invoice_def example_nwc_def)
  have inv: "invoice (?made pr h) = pr" "Nip47Transaction.payment_hash (?made pr h) = h" for pr h
    by (simp_all add: example_transaction_def)
  have tag: "payment_hash_tag example_decoded = Some ''abcd''"
    "payment_hash_tag example_decoded_nohash = None"
    by (simp_all add: payment_hash_tag_def example_decoded_def example_decoded_nohash_def)
  have a: "NWC_makeInvoice (example_nwc_invoice ''lnbc1'' None) (AmountNumber 1000) ''coffee'' =
     ([MakeInvoice 1000 ''coffee'', Decode ''lnbc1''],
      Inr \<lparr>paymentRequest = ''lnbc1'', rHash = ''abcd''\<rparr>)"
    using NWC_makeInvoice_payment_hash
      [of "example_nwc_invoice ''lnbc1'' None" "AmountNumber 1000" "''coffee''" "Error []"
          "?made ''lnbc1'' None" example_decoded]
    by (simp add: mk dec amt inv tag example_decode_def prod_eq_iff)
  have b: "NWC_makeInvoice (example_nwc_invoice ''lnbc1'' (Some ''ffee'')) (AmountNumber 1000) ''coffee'' =
     ([MakeInvoice 1000 ''coffee''], Inr \<lparr>paymentRequest = ''lnbc1'', rHash = ''ffee''\<rparr>)"
    using NWC_makeInvoice_payment_hash
      [of "example_nwc_invoice ''lnbc1'' (Some ''ffee'')" "AmountNumber 1000" "''coffee''" "Error []"
          "?made ''lnbc1'' (Some ''ffee'')" example_decoded]
    by (simp add: mk amt inv)
  have c: "NWC_makeInvoice (example_nwc_invoice ''lnbc-nohash'' None) (AmountString ''n/a'') ''tea'' =
     ([MakeInvoice 0 ''tea'', Decode ''lnbc-nohash''],
      Inl (Error ''Could not find payment hash in invoice''))"
    using NWC_makeInvoice_payment_hash
      [of "example_nwc_invoice ''lnbc-nohash'' None" "AmountString ''n/a''" "''tea''" "Error []"
          "?made ''lnbc-nohash'' None" example_decoded_nohash]
    by (simp add: mk dec amt inv tag example_decode_def prod_eq_iff)
  have d: "NWC_makeInvoice (example_nwc_invoice ''garbage'' (Some [])) (AmountNumber 5) ''tea'' =
     ([MakeInvoice 5 ''tea'', Decode ''garbage''],
      Inl (Error ''Not a proper lightning payment request''))"
    using NWC_makeInvoice_payment_hash
      [of "example_nwc_invoice ''garbage'' (Some [])" "AmountNumber 5" "''tea''"
          "Error ''Not a proper lightning payment request''"
          "?made ''garbage'' (Some [])" example_decoded]
    by (simp add: mk dec amt inv example_decode_def prod_eq_iff)
  show ?thesis using a b c d by simp
qed

lemma map_index_length: "length (map_index f k xs) = length xs"
  by (induction xs arbitrary: k) simp_all

lemma map_index_nth: "i < length xs \<Longrightarrow> map_index f k xs ! i = f (xs ! i) (k + i)"
proof (induction xs arbitrary: k i)
  case Nil
  then show ?case by simp
next
  case (Cons x xs)
  show ?case
  proof (cases i)
    case 0
    then show ?thesis by simp
  next
    case (Suc j)
    with Cons.prems have "j < length xs" by simp
    from Cons.IH [OF this, of "Suc k"] Suc show ?thesis by simp
  qed
qed

text \<open>
  Claim C10. \<open>getTransactions\<close> sends one request, for at most 50 transactions with
  unpaid ones left out. Each transaction returned is reported as settled, with the
  decimal numeral of its position in the list as its id (whatever the transaction is)
  and with \<open>settled_at\<close> times 1000 as its settle date.
\<close>

theorem NWC_getTransactions_normalized:
  "fst (NWC_getTransactions nwc) = [ListTransactions False 50] \<and>
   (listTransactions nwc False 50 = Inl err \<longrightarrow> snd (NWC_getTransactions nwc) = Inl err) \<and>
   (listTransactions nwc False 50 = Inr transactions \<longrightarrow>
      (\<exists>res. snd (NWC_getTransactions nwc) = Inr res \<and> length res = length transactions \<and>
         (\<forall>i<length transactions.
            ConnectorTransaction.id (res ! i) = string_of_nat i \<and>
            ConnectorTransaction.settled (res ! i) \<and>
            ConnectorTransaction.settleDate (res ! i)
              = js_mul (opt_num (settled_at (transactions ! i))) (Num 1000) \<and>
            (\<forall>t. settled_at (transactions ! i) = Some t \<longrightarrow>
               ConnectorTransaction.settleDate (res ! i) = Num (t * 1000)))))"
  by (auto simp: NWC_getTransactions_def map_index_length map_index_nth)

lemma string_of_nat_1: "string_of_nat (Suc 0) = ''1''"
  by (simp add: string_of_nat.simps digit_char_def)

text \<open>Two transactions: their ids are \<open>0\<close> and \<open>1\<close>.\<close>

theorem NWC_getTransactions_normalized_witness:
  "listTransactions example_nwc False 50 =
     Inr [example_transaction ''incoming'' (Some 1700000000),
          example_transaction ''outgoing'' (Some 1700000600)] \<and>
   NWC_getTransactions example_nwc =
     ([ListTransactions False 50],
      Inr [\<lparr>ConnectorTransaction.id = ''0'', memo = ''coffee'', preimage = ''0011'',
            payment_hash = None, settled = True, settleDate = Num 1700000000000,
            totalAmount = 21, type = ''received''\<rparr>,
           \<lparr>ConnectorTransaction.id = ''1'', memo = ''coffee'', preimage = ''0011'',
            payment_hash = None, settled = True, settleDate = Num 1700000600000,
            totalAmount = 21, type = ''sent''\<rparr>])"
  using NWC_getTransactions_normalized [of example_nwc "Error []"
      "[example_transaction ''incoming'' (Some 1700000000),
        example_transaction ''outgoing'' (Some 1700000600)]"]
  by (simp add: NWC_getTransactions_def example_nwc_def example_transaction_def
      string_of_nat.simps [of 0] string_of_nat_1 digit_char_def)

end
